theory Spec2Isabelle
  imports Main "HOL-Library.Sublist"
begin

section \<open>The project orchestration of IoTWorkspaceProject.ts\<close>

text \<open>
  The class \<open>IoTWorkspaceProject\<close> keeps an ordered list of components
  (\<open>this.componentList\<close>) and drives it through load, create, compile, upload,
  provision and deploy. The component classes, the configuration store, the Azure
  helpers and the editor's dialogs are collaborators whose code is outside this class:
  what they answer is a parameter of the model (the record \<open>Env\<close>), and every call
  made to them is recorded, in order, in the list of events a method returns next to
  its result. A method that ends with \<open>return b\<close> yields \<open>Returned b\<close>, one that
  ends with \<open>throw\<close> yields \<open>Threw e\<close>.
\<close>

subsection \<open>Errors and results\<close>

datatype error =
    RootPathNotFound
  | BoardNotSupported
  | CannotFindComponent
  | ComponentNotSupported string
  | UnableToCompile
  | UnableToUpload
  | NotIoTWorkbenchProject
  | DeploymentFailed string
  | External string

text \<open>The text each \<open>new Error(...)\<close> of the class carries. \<open>External\<close> stands for
  whatever a collaborator threw.\<close>

fun message :: "error \<Rightarrow> string" where
  "message RootPathNotFound =
     ''Unable to find the root path, please open the folder and initialize project again.''"
| "message BoardNotSupported = ''The specified board is not supported.''"
| "message CannotFindComponent = ''Cannot find component with id [object Object].''"
| "message (ComponentNotSupported t) = ''Component not supported with type of '' @ t @ ''.''"
| "message UnableToCompile =
     ''Unable to compile the device code, please check output window for detail.''"
| "message UnableToUpload =
     ''Unable to upload the sketch, please check output window for detail.''"
| "message NotIoTWorkbenchProject =
     ''Cannot run IoT Device Workbench command in a non-IoTWorkbench project. Please initialize an IoT Device Workbench project first.''"
| "message (DeploymentFailed n) = ''The deployment of '' @ n @ '' failed.''"
| "message (External m) = m"

datatype 'a outcome = Returned 'a | Threw error

subsection \<open>Components and the persisted records\<close>

datatype DependencyType = Other | Input

datatype ComponentClass =
    AZ3166Device | IoTButtonDevice | Esp32Device | RaspberryPiDevice
  | IoTHub | IoTHubDevice | AzureFunctions | StreamAnalyticsJob | CosmosDB

text \<open>A component object: the class that was instantiated, its \<open>id\<close>, and the
  \<open>Dependency[]\<close> handed to its constructor (\<open>{component, type}\<close> pairs).\<close>

datatype Component =
  Component (cls: ComponentClass) (componentId: string)
    (dependencies: "(Component \<times> DependencyType) list")

text \<open>A record of the component config store, as \<open>getSortedComponents\<close> returns
  it: \<open>{id, type, dependencies: [{id, type}]}\<close>.\<close>

record DependencyConfig =
  dependent_id :: string
  dependent_type :: DependencyType

record ComponentConfig =
  config_id :: string
  config_type :: string
  config_dependencies :: "DependencyConfig list"

datatype ConfigKey = BoardId | DevicePath | FunctionPath | AsaPath | ProjectType

datatype ProjectTemplateType =
  Template_Basic | Template_IotHub | Template_AzureFunctions | Template_StreamAnalytics

text \<open>What the project-config file holds under a key: a string, or the template type
  of the project. A stored template type is truthy (the values of the enumeration are
  taken to be non-zero).\<close>

datatype ConfigValue = StringValue string | TemplateValue ProjectTemplateType

record Workspace =
  folders :: "string list"
  settings :: "ConfigKey \<rightharpoonup> string"

subsection \<open>The file system below the project root\<close>

text \<open>The paths the class touches, each relative to the project root: a flag says
  that the folder or file exists, an option holds what was written to a file.
  \<open>fs.removeSync(this.projectRootPath)\<close> removes the root with all of them.\<close>

record FileSystem =
  rootFolder :: bool
  componentConfigStore :: bool
  deviceDir :: bool
  iotworkbenchprojectFile :: bool
  functionDir :: bool
  asaDir :: bool
  asaQueryFile :: "(string \<times> string) option"
  workspaceConfigFile :: "Workspace option"
  vscodeFolder :: bool
  projectConfigFile :: "(ConfigKey \<rightharpoonup> ConfigValue) option"

definition removeSync :: "FileSystem \<Rightarrow> FileSystem" where
  "removeSync f =
     \<lparr> rootFolder = False, componentConfigStore = False, deviceDir = False,
       iotworkbenchprojectFile = False, functionDir = False, asaDir = False,
       asaQueryFile = None, workspaceConfigFile = None, vscodeFolder = False,
       projectConfigFile = None \<rparr>"

record State =
  componentList :: "Component list"
  fileSystem :: FileSystem

subsection \<open>Collaborators\<close>

text \<open>An event is one call to a collaborator, with its answer where the class looks
  at the answer.\<close>

datatype EventName = projectLoadEvent | createNewProjectEvent

datatype Event =
    E_checkPrerequisites Component bool
  | E_load Component
  | E_updateConfigSettings Component
  | E_create Component "bool outcome"
  | E_compile Component "bool outcome"
  | E_upload Component "bool outcome"
  | E_provision Component "bool outcome"
  | E_deploy Component "bool outcome"
  | E_checkAzureLogin "bool outcome"
  | E_AzureUtility_init
  | E_getResourceGroup "string option"
  | E_showQuickPick string bool
  | E_showInformationMessage string
  | E_showWarningMessage string
  | E_sendEvent EventName
  | E_checkRemoteExtension bool
  | E_channelAppendLine
  | E_openInContainer

text \<open>What the collaborators answer. \<open>workspaceFolders\<close> is the path of the first
  workspace folder, \<open>None\<close> when \<open>vscode.workspace.workspaceFolders\<close> is undefined;
  \<open>configGet\<close> is \<open>ConfigHandler.get<string>\<close>; \<open>getSortedComponents\<close> is the list
  the handler of the component config store resolves to; \<open>boardIdOf\<close> is the static
  \<open>boardId\<close> of a device class and \<open>newId\<close> the id a constructor gives its object;
  \<open>canCompile\<close> ... \<open>canDeploy\<close> are the capability tests of the base class. An
  answer depends on the component asked and stays the same during one call of a
  method. Calls whose result the class does not look at (\<open>load()\<close>,
  \<open>updateConfigSettings()\<close>, \<open>AzureUtility.init\<close>, the telemetry, the reading of
  the project-config file) are taken to return, and \<open>checkPrerequisites()\<close> to answer
  with a boolean.\<close>

record Env =
  workspaceFolders :: "string option"
  configGet :: "ConfigKey \<Rightarrow> string option"
  getSortedComponents :: "ComponentConfig list option"
  boardIdOf :: "ComponentClass \<Rightarrow> string"
  newId :: "ComponentClass \<Rightarrow> string"
  name :: "Component \<Rightarrow> string"
  canCompile :: "Component \<Rightarrow> bool"
  canUpload :: "Component \<Rightarrow> bool"
  canProvision :: "Component \<Rightarrow> bool"
  canDeploy :: "Component \<Rightarrow> bool"
  checkPrerequisites :: "Component \<Rightarrow> bool"
  component_create :: "Component \<Rightarrow> bool outcome"
  component_compile :: "Component \<Rightarrow> bool outcome"
  component_upload :: "Component \<Rightarrow> bool outcome"
  component_provision :: "Component \<Rightarrow> bool outcome"
  component_deploy :: "Component \<Rightarrow> bool outcome"
  checkAzureLogin :: "bool outcome"
  getResourceGroup :: "string option"
  subscriptionId :: "string option"
  showQuickPick :: "string \<Rightarrow> bool"
  isRemote :: bool
  checkRemoteExtension :: bool

text \<open>JavaScript's \<open>!v\<close> on a \<open>string | undefined\<close>: \<open>undefined\<close> and the empty
  string are falsy.\<close>

fun truthy :: "string option \<Rightarrow> bool" where
  "truthy None = False"
| "truthy (Some v) = (if v = [] then False else True)"

subsection \<open>compile and upload\<close>

fun compile_loop :: "Env \<Rightarrow> Component list \<Rightarrow> bool outcome \<times> Event list" where
  "compile_loop env [] = (Returned True, [])"
| "compile_loop env (item # rest) =
     (if canCompile env item then
        (if checkPrerequisites env item then
           (case component_compile env item of
              Threw e \<Rightarrow>
                (Threw e, [E_checkPrerequisites item True, E_compile item (Threw e)])
            | Returned res \<Rightarrow>
                (if res = False then
                   (Threw UnableToCompile,
                    [E_checkPrerequisites item True, E_compile item (Returned res)])
                 else
                   (case compile_loop env rest of (r, evs) \<Rightarrow>
                      (r, E_checkPrerequisites item True
                            # E_compile item (Returned res) # evs))))
         else (Returned False, [E_checkPrerequisites item False]))
      else compile_loop env rest)"

definition compile :: "Env \<Rightarrow> State \<Rightarrow> bool outcome \<times> Event list" where
  "compile env s = compile_loop env (componentList s)"

fun upload_loop :: "Env \<Rightarrow> Component list \<Rightarrow> bool outcome \<times> Event list" where
  "upload_loop env [] = (Returned True, [])"
| "upload_loop env (item # rest) =
     (if canUpload env item then
        (if checkPrerequisites env item then
           (case component_upload env item of
              Threw e \<Rightarrow>
                (Threw e, [E_checkPrerequisites item True, E_upload item (Threw e)])
            | Returned res \<Rightarrow>
                (if res = False then
                   (Threw UnableToUpload,
                    [E_checkPrerequisites item True, E_upload item (Returned res)])
                 else
                   (case upload_loop env rest of (r, evs) \<Rightarrow>
                      (r, E_checkPrerequisites item True
                            # E_upload item (Returned res) # evs))))
         else (Returned False, [E_checkPrerequisites item False]))
      else upload_loop env rest)"

definition upload :: "Env \<Rightarrow> State \<Rightarrow> bool outcome \<times> Event list" where
  "upload env s = upload_loop env (componentList s)"

subsection \<open>provision and deploy\<close>

text \<open>The label of the confirmation prompt: the names of all eligible components,
  numbered from 1, every entry whose name is the acting component's marked with
  \<open>>>\<close>, joined by \<open>'   -   '\<close>.\<close>

fun toString :: "nat \<Rightarrow> string" where
  "toString n =
     (if n < 10 then [''0123456789'' ! n]
      else toString (n div 10) @ [''0123456789'' ! (n mod 10)])"

declare toString.simps [simp del]

fun markItems :: "nat \<Rightarrow> string list \<Rightarrow> string \<Rightarrow> string list" where
  "markItems i [] itemName = []"
| "markItems i (n # ns) itemName =
     (if n = itemName then ''>> '' @ toString (i + 1) @ ''. '' @ n
      else toString (i + 1) @ ''. '' @ n) # markItems (i + 1) ns itemName"

fun join :: "string list \<Rightarrow> string \<Rightarrow> string" where
  "join [] sep = []"
| "join [x] sep = x"
| "join (x # y # ys) sep = x @ sep @ join (y # ys) sep"

definition itemLabel :: "string list \<Rightarrow> string \<Rightarrow> string" where
  "itemLabel itemList itemName = join (markItems 0 itemList itemName) ''   -   ''"

text \<open>The first loop of \<open>provision\<close>: the names of the components that can be
  provisioned, or \<open>None\<close> when the loop left with \<open>return false\<close>.\<close>

fun provisionItemList :: "Env \<Rightarrow> Component list \<Rightarrow> string list option \<times> Event list" where
  "provisionItemList env [] = (Some [], [])"
| "provisionItemList env (item # rest) =
     (if canProvision env item then
        (if checkPrerequisites env item then
           (case provisionItemList env rest of
              (None, evs) \<Rightarrow> (None, E_checkPrerequisites item True # evs)
            | (Some names, evs) \<Rightarrow>
                (Some (name env item # names), E_checkPrerequisites item True # evs))
         else (None, [E_checkPrerequisites item False]))
      else provisionItemList env rest)"

fun provision_loop ::
  "Env \<Rightarrow> string list \<Rightarrow> Component list \<Rightarrow> bool outcome \<times> Event list" where
  "provision_loop env itemList [] = (Returned True, [])"
| "provision_loop env itemList (item # rest) =
     (if canProvision env item then
        (let label = itemLabel itemList (name env item) in
         if showQuickPick env label then
           (case component_provision env item of
              Threw e \<Rightarrow>
                (Threw e, [E_showQuickPick label True, E_provision item (Threw e)])
            | Returned res \<Rightarrow>
                (if res = False then
                   (Returned False,
                    [E_showQuickPick label True, E_provision item (Returned res),
                     E_showWarningMessage ''Provision canceled.''])
                 else
                   (case provision_loop env itemList rest of (r, evs) \<Rightarrow>
                      (r, E_showQuickPick label True
                            # E_provision item (Returned res) # evs))))
         else (Returned False, [E_showQuickPick label False]))
      else provision_loop env itemList rest)"

definition provision :: "Env \<Rightarrow> State \<Rightarrow> bool outcome \<times> Event list" where
  "provision env s =
     (if truthy (configGet env DevicePath) then
        (case provisionItemList env (componentList s) of
           (None, evs) \<Rightarrow> (Returned False, evs)
         | (Some itemList, evs) \<Rightarrow>
             (if length itemList = 0 then
                (Returned False,
                 evs @ [E_showInformationMessage
                   ''Congratulations! There is no Azure service to provision in this project.''])
              else if length itemList > 0 then
                (case checkAzureLogin env of
                   Threw e \<Rightarrow> (Threw e, evs @ [E_checkAzureLogin (Threw e)])
                 | Returned loggedIn \<Rightarrow>
                     (let evs1 = evs @ [E_checkAzureLogin (Returned loggedIn),
                                        E_AzureUtility_init,
                                        E_getResourceGroup (getResourceGroup env)]
                      in if truthy (getResourceGroup env) \<and> truthy (subscriptionId env) then
                           (case provision_loop env itemList (componentList s) of
                              (r, evs2) \<Rightarrow> (r, evs1 @ evs2))
                         else (Returned False, evs1)))
              else (Returned False, evs)))
      else (Threw NotIoTWorkbenchProject, []))"

fun deployItemList :: "Env \<Rightarrow> Component list \<Rightarrow> string list option \<times> Event list" where
  "deployItemList env [] = (Some [], [])"
| "deployItemList env (item # rest) =
     (if canDeploy env item then
        (if checkPrerequisites env item then
           (case deployItemList env rest of
              (None, evs) \<Rightarrow> (None, E_checkPrerequisites item True # evs)
            | (Some names, evs) \<Rightarrow>
                (Some (name env item # names), E_checkPrerequisites item True # evs))
         else (None, [E_checkPrerequisites item False]))
      else deployItemList env rest)"

fun deploy_loop ::
  "Env \<Rightarrow> string list \<Rightarrow> Component list \<Rightarrow> bool outcome \<times> Event list" where
  "deploy_loop env itemList [] =
     (Returned True, [E_showInformationMessage ''Azure deploy succeeded.''])"
| "deploy_loop env itemList (item # rest) =
     (if canDeploy env item then
        (let label = itemLabel itemList (name env item) in
         if showQuickPick env label then
           (case component_deploy env item of
              Threw e \<Rightarrow>
                (Threw e, [E_showQuickPick label True, E_deploy item (Threw e)])
            | Returned res \<Rightarrow>
                (if res = False then
                   (Threw (DeploymentFailed (name env item)),
                    [E_showQuickPick label True, E_deploy item (Returned res)])
                 else
                   (case deploy_loop env itemList rest of (r, evs) \<Rightarrow>
                      (r, E_showQuickPick label True
                            # E_deploy item (Returned res) # evs))))
         else (Returned False, [E_showQuickPick label False]))
      else deploy_loop env itemList rest)"

definition deploy :: "Env \<Rightarrow> State \<Rightarrow> bool outcome \<times> Event list" where
  "deploy env s =
     (case deployItemList env (componentList s) of
        (None, evs) \<Rightarrow> (Returned False, evs)
      | (Some itemList, evs) \<Rightarrow>
          (if length itemList \<le> 0 then
             (Returned False,
              evs @ [E_showInformationMessage
                ''Congratulations! The project does not contain any Azure components to be deployed.''])
           else
             (case checkAzureLogin env of
                Threw e \<Rightarrow> (Threw e, evs @ [E_checkAzureLogin (Threw e)])
              | Returned azureLoggedIn \<Rightarrow>
                  (case deploy_loop env itemList (componentList s) of
                     (r, evs2) \<Rightarrow>
                       (r, evs @ [E_checkAzureLogin (Returned azureLoggedIn)] @ evs2)))))"

subsection \<open>Building components\<close>

text \<open>\<open>new C(...)\<close>: an object of class \<open>C\<close> with the id its constructor gives it
  and the dependencies handed over.\<close>

definition newComponent ::
  "Env \<Rightarrow> ComponentClass \<Rightarrow> (Component \<times> DependencyType) list \<Rightarrow> Component" where
  "newComponent env c deps = Component c (newId env c) deps"

text \<open>Modelled from the spec: the component classes (\<open>IoTHub\<close>, \<open>AzureFunctions\<close>,
  \<open>StreamAnalyticsJob\<close>, \<open>CosmosDB\<close>) and their \<open>load()\<close> are not among the sources.
  \<open>load()\<close> rehydrates a component from its persisted record, whose \<open>id\<close> is the
  component's identity: after \<open>load()\<close> the component built for a record carries that
  record's id.\<close>

definition loaded :: "ComponentConfig \<Rightarrow> Component \<Rightarrow> Component" where
  "loaded componentConfig c =
     Component (cls c) (config_id componentConfig) (dependencies c)"

definition push :: "Component \<Rightarrow> State \<Rightarrow> State" where
  "push c s = s\<lparr>componentList := componentList s @ [c]\<rparr>"

definition createIfNotExists :: "State \<Rightarrow> State" where
  "createIfNotExists s = s\<lparr>fileSystem := (fileSystem s)\<lparr>componentConfigStore := True\<rparr>\<rparr>"

fun prepend ::
  "Event list \<Rightarrow> ('a \<times> Event list) \<times> State \<Rightarrow> ('a \<times> Event list) \<times> State" where
  "prepend evs ((r, evs'), s) = ((r, evs @ evs'), s)"

definition checkAll :: "Env \<Rightarrow> Component list \<Rightarrow> Event list" where
  "checkAll env items =
     map (\<lambda>item. E_checkPrerequisites item (checkPrerequisites env item)) items"

subsection \<open>load\<close>

text \<open>The inner loop of the \<open>StreamAnalyticsJob\<close> and \<open>CosmosDB\<close> cases: every
  \<open>dependent.id\<close> is looked up in \<open>components\<close>, the map of the components loaded
  so far. \<open>components\<close> is a plain JavaScript object; it is modelled as a finite map,
  which is what it is for ids that are not names every object inherits (see
  \<open>objectPrototypeKeys\<close> below).\<close>

fun resolveDependencies ::
  "(string \<rightharpoonup> Component) \<Rightarrow> DependencyConfig list
     \<Rightarrow> error + (Component \<times> DependencyType) list" where
  "resolveDependencies components [] = Inr []"
| "resolveDependencies components (dependent # rest) =
     (case components (dependent_id dependent) of
        None \<Rightarrow> Inl CannotFindComponent
      | Some component \<Rightarrow>
          (case resolveDependencies components rest of
             Inl e \<Rightarrow> Inl e
           | Inr deps \<Rightarrow> Inr ((component, dependent_type dependent) # deps)))"

text \<open>The loop over \<open>componentConfigs\<close>, followed by what stands after it: the
  \<open>checkPrerequisites()\<close> of every component of the list, and \<open>return true\<close>. The
  cases of the \<open>switch\<close> are tried in the order of the source, the last branch is its
  \<open>default\<close>. \<open>functionLocation\<close> is a joined path and never empty, so the test
  \<open>if (functionLocation)\<close> always succeeds.\<close>

fun load_loop ::
  "Env \<Rightarrow> ComponentConfig list \<Rightarrow> (string \<rightharpoonup> Component) \<Rightarrow> State
     \<Rightarrow> (bool outcome \<times> Event list) \<times> State" where
  "load_loop env [] components s =
     ((Returned True, checkAll env (componentList s)), s)"
| "load_loop env (componentConfig # rest) components s =
     (if config_type componentConfig = ''IoTHub'' then
        (let iotHub = loaded componentConfig (newComponent env IoTHub []);
             device = newComponent env IoTHubDevice []
         in prepend [E_load iotHub]
              (load_loop env rest (components(componentId iotHub \<mapsto> iotHub))
                 (push device (push iotHub s))))
      else if config_type componentConfig = ''AzureFunctions'' then
        (if truthy (configGet env FunctionPath) then
           (let functionApp = loaded componentConfig (newComponent env AzureFunctions [])
            in prepend [E_load functionApp]
                 (load_loop env rest (components(componentId functionApp \<mapsto> functionApp))
                    (push functionApp s)))
         else ((Returned False, []), s))
      else if config_type componentConfig = ''StreamAnalyticsJob'' then
        (case resolveDependencies components (config_dependencies componentConfig) of
           Inl e \<Rightarrow> ((Threw e, []), s)
         | Inr deps \<Rightarrow>
             (let asa = loaded componentConfig (newComponent env StreamAnalyticsJob deps)
              in prepend [E_load asa]
                   (load_loop env rest (components(componentId asa \<mapsto> asa)) (push asa s))))
      else if config_type componentConfig = ''CosmosDB'' then
        (case resolveDependencies components (config_dependencies componentConfig) of
           Inl e \<Rightarrow> ((Threw e, []), s)
         | Inr deps \<Rightarrow>
             (let cosmosDB = loaded componentConfig (newComponent env CosmosDB deps)
              in prepend [E_load cosmosDB]
                   (load_loop env rest (components(componentId cosmosDB \<mapsto> cosmosDB))
                      (push cosmosDB s))))
      else ((Threw (ComponentNotSupported (config_type componentConfig)), []), s))"

text \<open>The branch for projects without component records ("Support backward
  compact").\<close>

definition load_legacy :: "Env \<Rightarrow> State \<Rightarrow> (bool outcome \<times> Event list) \<times> State" where
  "load_legacy env s =
     (let iotHub = newComponent env IoTHub [];
          device = newComponent env IoTHubDevice [];
          s1 = push device (push iotHub s);
          evs1 = [E_updateConfigSettings iotHub, E_load iotHub]
      in if truthy (configGet env FunctionPath) then
           (let functionApp = newComponent env AzureFunctions [(iotHub, Input)];
                s2 = push functionApp s1
            in ((Returned True,
                 evs1 @ [E_updateConfigSettings functionApp, E_load functionApp]
                   @ checkAll env (componentList s2)), s2))
         else ((Returned True, evs1 @ checkAll env (componentList s1)), s1))"

text \<open>The device object for the configured board id: the first class of the chain
  whose \<open>boardId\<close> is the configured one, none when no class has it.\<close>

definition deviceClass :: "Env \<Rightarrow> string \<Rightarrow> ComponentClass option" where
  "deviceClass env boardId =
     (if boardId = boardIdOf env AZ3166Device then Some AZ3166Device
      else if boardId = boardIdOf env IoTButtonDevice then Some IoTButtonDevice
      else if boardId = boardIdOf env Esp32Device then Some Esp32Device
      else if boardId = boardIdOf env RaspberryPiDevice then Some RaspberryPiDevice
      else None)"

definition load_components :: "Env \<Rightarrow> State \<Rightarrow> (bool outcome \<times> Event list) \<times> State" where
  "load_components env s =
     (case getSortedComponents env of
        None \<Rightarrow> load_legacy env s
      | Some componentConfigs \<Rightarrow>
          (if length componentConfigs = 0 then load_legacy env s
           else load_loop env componentConfigs Map.empty s))"

definition load :: "Env \<Rightarrow> bool \<Rightarrow> State \<Rightarrow> (bool outcome \<times> Event list) \<times> State" where
  "load env initLoad s =
     (if workspaceFolders env = None then ((Returned False, []), s)
      else if truthy (configGet env DevicePath) then
        (if iotworkbenchprojectFile (fileSystem s) then
           (case projectConfigFile (fileSystem s) of
              None \<Rightarrow> ((Returned False, []), s)
            | Some projectConfigJson \<Rightarrow>
                (let telemetry = (if initLoad then [E_sendEvent projectLoadEvent] else []);
                     s1 = createIfNotExists s
                 in case configGet env BoardId of
                      None \<Rightarrow> ((Returned False, telemetry), s1)
                    | Some boardId \<Rightarrow>
                        (if boardId = [] then ((Returned False, telemetry), s1)
                         else
                           (case projectConfigJson ProjectType of
                              None \<Rightarrow> ((Returned False, telemetry), s1)
                            | Some projectType \<Rightarrow>
                                (if projectType = StringValue [] then
                                   ((Returned False, telemetry), s1)
                                 else
                                   (case deviceClass env boardId of
                                      None \<Rightarrow>
                                        prepend telemetry (load_components env s1)
                                    | Some c \<Rightarrow>
                                        (let device = newComponent env c []
                                         in prepend (telemetry @ [E_load device])
                                              (load_components env (push device s1)))))))))
         else ((Returned False, []), s))
      else ((Returned False, []), s))"

subsection \<open>create\<close>

text \<open>The loop "Component level creation": it ends when a \<open>create()\<close> returns
  \<open>false\<close> or throws, or when the list is exhausted.\<close>

datatype CreateLoop = AllCreated | CreateReturnedFalse | CreateThrew error

fun create_loop :: "Env \<Rightarrow> Component list \<Rightarrow> CreateLoop \<times> Event list" where
  "create_loop env [] = (AllCreated, [])"
| "create_loop env (c # rest) =
     (case component_create env c of
        Threw e \<Rightarrow> (CreateThrew e, [E_create c (Threw e)])
      | Returned res \<Rightarrow>
          (if res = False then (CreateReturnedFalse, [E_create c (Returned res)])
           else (case create_loop env rest of (r, evs) \<Rightarrow>
                   (r, E_create c (Returned res) # evs))))"

text \<open>What follows a completed loop: the workspace file, the \<open>.vscode\<close> folder, the
  project-config file (written when it does not exist yet), the telemetry event, and
  the hand-over to the container.\<close>

definition create_persist ::
  "Env \<Rightarrow> bool \<Rightarrow> Workspace \<Rightarrow> (ConfigKey \<rightharpoonup> ConfigValue) \<Rightarrow> State
     \<Rightarrow> (bool outcome \<times> Event list) \<times> State" where
  "create_persist env openInNewWindow workspace projectConfig s =
     (let f = fileSystem s;
          f1 = f\<lparr>workspaceConfigFile := Some workspace, vscodeFolder := True\<rparr>;
          f2 = (case projectConfigFile f1 of
                  None \<Rightarrow> f1\<lparr>projectConfigFile := Some projectConfig\<rparr>
                | Some existing \<Rightarrow> f1);
          s' = s\<lparr>fileSystem := f2\<rparr>;
          telemetry = (if openInNewWindow then [] else [E_sendEvent createNewProjectEvent])
      in if isRemote env then ((Returned True, telemetry @ [E_openInContainer]), s')
         else if checkRemoteExtension env then
           ((Returned True,
             telemetry @ [E_checkRemoteExtension True, E_openInContainer]), s')
         else
           ((Returned False,
             telemetry @ [E_checkRemoteExtension False, E_channelAppendLine]), s'))"

definition create_components ::
  "Env \<Rightarrow> bool \<Rightarrow> Workspace \<Rightarrow> (ConfigKey \<rightharpoonup> ConfigValue) \<Rightarrow> State
     \<Rightarrow> (bool outcome \<times> Event list) \<times> State" where
  "create_components env openInNewWindow workspace projectConfig s =
     (case create_loop env (componentList s) of
        (CreateThrew e, evs) \<Rightarrow> ((Threw e, evs), s)
      | (CreateReturnedFalse, evs) \<Rightarrow>
          ((Returned False, evs @ [E_showWarningMessage ''Project initialize canceled.'']),
           s\<lparr>fileSystem := removeSync (fileSystem s)\<rparr>)
      | (AllCreated, evs) \<Rightarrow>
          prepend evs (create_persist env openInNewWindow workspace projectConfig s))"

text \<open>The \<open>switch (projectType)\<close>, each case followed by the rest of \<open>create\<close>.
  The four template types are all the enumeration has; the \<open>default\<close> branch does what
  the \<open>Basic\<close> case does.\<close>

definition create_template ::
  "Env \<Rightarrow> ProjectTemplateType \<Rightarrow> bool \<Rightarrow> Workspace \<Rightarrow> (ConfigKey \<rightharpoonup> ConfigValue)
     \<Rightarrow> State \<Rightarrow> (bool outcome \<times> Event list) \<times> State" where
  "create_template env projectType openInNewWindow workspace projectConfig s =
     (case projectType of
        Template_Basic \<Rightarrow>
          create_components env openInNewWindow workspace projectConfig s
      | Template_IotHub \<Rightarrow>
          (let iothub = newComponent env IoTHub []
           in if checkPrerequisites env iothub then
                prepend [E_checkPrerequisites iothub True]
                  (create_components env openInNewWindow workspace projectConfig
                     (push iothub s))
              else ((Returned False, [E_checkPrerequisites iothub False]), s))
      | Template_AzureFunctions \<Rightarrow>
          (let iothub = newComponent env IoTHub []
           in if checkPrerequisites env iothub then
                (let s1 = s\<lparr>fileSystem := (fileSystem s)\<lparr>functionDir := True\<rparr>\<rparr>;
                     workspace1 = workspace\<lparr>folders := folders workspace @ [''Functions'']\<rparr>;
                     azureFunctions = newComponent env AzureFunctions [(iothub, Input)]
                 in if checkPrerequisites env azureFunctions then
                      prepend [E_checkPrerequisites iothub True,
                               E_checkPrerequisites azureFunctions True]
                        (create_components env openInNewWindow
                           (workspace1\<lparr>settings :=
                              (settings workspace1)(FunctionPath \<mapsto> ''Functions'')\<rparr>)
                           (projectConfig(FunctionPath \<mapsto> StringValue ''Functions''))
                           (push azureFunctions (push iothub s1)))
                    else
                      ((Returned False,
                        [E_checkPrerequisites iothub True,
                         E_checkPrerequisites azureFunctions False]), s1))
              else ((Returned False, [E_checkPrerequisites iothub False]), s))
      | Template_StreamAnalytics \<Rightarrow>
          (let iothub = newComponent env IoTHub []
           in if checkPrerequisites env iothub then
                (let cosmosDB = newComponent env CosmosDB []
                 in if checkPrerequisites env cosmosDB then
                      (let s1 = s\<lparr>fileSystem := (fileSystem s)
                                  \<lparr>asaDir := True,
                                   asaQueryFile :=
                                     Some (''iothub-'' @ componentId iothub,
                                           ''cosmosdb-'' @ componentId cosmosDB)\<rparr>\<rparr>;
                           asa = newComponent env StreamAnalyticsJob
                                   [(iothub, Input), (cosmosDB, Other)]
                       in if checkPrerequisites env asa then
                            prepend [E_checkPrerequisites iothub True,
                                     E_checkPrerequisites cosmosDB True,
                                     E_checkPrerequisites asa True]
                              (create_components env openInNewWindow
                                 (workspace\<lparr>folders := folders workspace @ [''StreamAnalytics''],
                                    settings :=
                                      (settings workspace)(AsaPath \<mapsto> ''StreamAnalytics'')\<rparr>)
                                 (projectConfig(AsaPath \<mapsto> StringValue ''StreamAnalytics''))
                                 (push asa (push cosmosDB (push iothub s1))))
                          else
                            ((Returned False,
                              [E_checkPrerequisites iothub True,
                               E_checkPrerequisites cosmosDB True,
                               E_checkPrerequisites asa False]), s1))
                    else
                      ((Returned False,
                        [E_checkPrerequisites iothub True,
                         E_checkPrerequisites cosmosDB False]), s))
              else ((Returned False, [E_checkPrerequisites iothub False]), s)))"

text \<open>\<open>create(rootFolderPath, templateFilesInfo, projectType, boardId,
  openInNewWindow)\<close>. The file system of the state is the one below \<open>rootFolderPath\<close>;
  \<open>templateFilesInfo\<close> only travels to the device's constructor. The device is pushed
  twice, once after each of the two \<open>boardId\<close> settings, as in the source.\<close>

definition create ::
  "Env \<Rightarrow> ProjectTemplateType \<Rightarrow> string \<Rightarrow> bool \<Rightarrow> State
     \<Rightarrow> (bool outcome \<times> Event list) \<times> State" where
  "create env projectType boardId openInNewWindow s =
     (if rootFolder (fileSystem s) then
        (let s1 = createIfNotExists s;
             s2 = s1\<lparr>fileSystem := (fileSystem s1)\<lparr>deviceDir := True\<rparr>\<rparr>;
             workspace = \<lparr>folders = [''Device''], settings = Map.empty\<rparr>
         in if boardId = boardIdOf env RaspberryPiDevice then
              (let device = newComponent env RaspberryPiDevice []
               in if checkPrerequisites env device then
                    (let workspace1 = workspace\<lparr>settings := (settings workspace)(BoardId \<mapsto> boardId)\<rparr>;
                         s3 = push device s2;
                         workspace2 = workspace1\<lparr>settings := (settings workspace1)(DevicePath \<mapsto> ''Device'')\<rparr>;
                         projectConfig1 = [BoardId \<mapsto> StringValue boardId];
                         s4 = push device s3;
                         projectConfig2 = projectConfig1(ProjectType \<mapsto> TemplateValue projectType)
                     in prepend [E_checkPrerequisites device True]
                          (create_template env projectType openInNewWindow
                             workspace2 projectConfig2 s4))
                  else ((Returned False, [E_checkPrerequisites device False]), s2))
            else ((Threw BoardNotSupported, []), s2))
      else ((Threw RootPathNotFound, []), s))"

subsection \<open>Reading the events\<close>

text \<open>The components whose phase method was invoked, in the order of the calls.\<close>

fun compileCalls :: "Event list \<Rightarrow> Component list" where
  "compileCalls [] = []"
| "compileCalls (E_compile c r # evs) = c # compileCalls evs"
| "compileCalls (e # evs) = compileCalls evs"

fun uploadCalls :: "Event list \<Rightarrow> Component list" where
  "uploadCalls [] = []"
| "uploadCalls (E_upload c r # evs) = c # uploadCalls evs"
| "uploadCalls (e # evs) = uploadCalls evs"

fun provisionCalls :: "Event list \<Rightarrow> Component list" where
  "provisionCalls [] = []"
| "provisionCalls (E_provision c r # evs) = c # provisionCalls evs"
| "provisionCalls (e # evs) = provisionCalls evs"

subsection \<open>An example project\<close>

text \<open>A Raspberry Pi project in which every collaborator answers favourably. The
  examples below change single answers of it.\<close>

fun isDevice :: "ComponentClass \<Rightarrow> bool" where
  "isDevice AZ3166Device = True"
| "isDevice IoTButtonDevice = True"
| "isDevice Esp32Device = True"
| "isDevice RaspberryPiDevice = True"
| "isDevice c = False"

fun isAzure :: "ComponentClass \<Rightarrow> bool" where
  "isAzure IoTHub = True"
| "isAzure AzureFunctions = True"
| "isAzure StreamAnalyticsJob = True"
| "isAzure CosmosDB = True"
| "isAzure c = False"

fun exampleBoardId :: "ComponentClass \<Rightarrow> string" where
  "exampleBoardId AZ3166Device = ''devkit''"
| "exampleBoardId IoTButtonDevice = ''iotbutton''"
| "exampleBoardId Esp32Device = ''esp32''"
| "exampleBoardId RaspberryPiDevice = ''raspberrypi''"
| "exampleBoardId c = []"

fun exampleName :: "ComponentClass \<Rightarrow> string" where
  "exampleName IoTHub = ''IoT Hub''"
| "exampleName AzureFunctions = ''Azure Functions''"
| "exampleName StreamAnalyticsJob = ''Stream Analytics Job''"
| "exampleName CosmosDB = ''Cosmos DB''"
| "exampleName IoTHubDevice = ''IoT Hub Device''"
| "exampleName c = ''Device''"

fun exampleId :: "ComponentClass \<Rightarrow> string" where
  "exampleId IoTHub = ''id-hub''"
| "exampleId AzureFunctions = ''id-functions''"
| "exampleId StreamAnalyticsJob = ''id-asa''"
| "exampleId CosmosDB = ''id-cosmos''"
| "exampleId IoTHubDevice = ''id-hub-device''"
| "exampleId c = ''id-device''"

definition exampleEnv :: Env where
  "exampleEnv =
     \<lparr> workspaceFolders = Some ''/projects/demo/Device'',
       configGet = [DevicePath \<mapsto> ''Device'', BoardId \<mapsto> ''raspberrypi''],
       getSortedComponents = None,
       boardIdOf = exampleBoardId,
       newId = exampleId,
       name = (\<lambda>c. exampleName (cls c)),
       canCompile = (\<lambda>c. isDevice (cls c)),
       canUpload = (\<lambda>c. isDevice (cls c)),
       canProvision = (\<lambda>c. isAzure (cls c)),
       canDeploy = (\<lambda>c. isAzure (cls c)),
       checkPrerequisites = (\<lambda>c. True),
       component_create = (\<lambda>c. Returned True),
       component_compile = (\<lambda>c. Returned True),
       component_upload = (\<lambda>c. Returned True),
       component_provision = (\<lambda>c. Returned True),
       component_deploy = (\<lambda>c. Returned True),
       checkAzureLogin = Returned True,
       getResourceGroup = Some ''demo-group'',
       subscriptionId = Some ''demo-subscription'',
       showQuickPick = (\<lambda>label. True),
       isRemote = False,
       checkRemoteExtension = True \<rparr>"

definition emptyFolder :: FileSystem where
  "emptyFolder =
     \<lparr> rootFolder = True, componentConfigStore = False, deviceDir = False,
       iotworkbenchprojectFile = False, functionDir = False, asaDir = False,
       asaQueryFile = None, workspaceConfigFile = None, vscodeFolder = False,
       projectConfigFile = None \<rparr>"

definition projectFolder :: FileSystem where
  "projectFolder =
     \<lparr> rootFolder = True, componentConfigStore = True, deviceDir = True,
       iotworkbenchprojectFile = True, functionDir = False, asaDir = False,
       asaQueryFile = None,
       workspaceConfigFile =
         Some \<lparr>folders = [''Device''],
               settings = [BoardId \<mapsto> ''raspberrypi'', DevicePath \<mapsto> ''Device'']\<rparr>,
       vscodeFolder = True,
       projectConfigFile =
         Some [BoardId \<mapsto> StringValue ''raspberrypi'',
               ProjectType \<mapsto> TemplateValue Template_IotHub] \<rparr>"

definition exampleDevice :: Component where
  "exampleDevice = Component RaspberryPiDevice ''id-device'' []"

definition exampleHub :: Component where
  "exampleHub = Component IoTHub ''id-hub'' []"

definition exampleCosmos :: Component where
  "exampleCosmos = Component CosmosDB ''id-cosmos'' []"

definition exampleAsa :: Component where
  "exampleAsa =
     Component StreamAnalyticsJob ''id-asa'' [(exampleHub, Input), (exampleCosmos, Other)]"

definition exampleFunctions :: Component where
  "exampleFunctions = Component AzureFunctions ''id-functions'' [(exampleHub, Input)]"

definition exampleHubDevice :: Component where
  "exampleHubDevice = Component IoTHubDevice ''id-hub-device'' []"

definition deviceA :: Component where
  "deviceA = Component RaspberryPiDevice ''a'' []"

definition deviceB :: Component where
  "deviceB = Component Esp32Device ''b'' []"

definition deviceC :: Component where
  "deviceC = Component Esp32Device ''c'' []"

text \<open>A registry with three devices behind a hub, and one with a device and a hub.\<close>

definition threeDevices :: State where
  "threeDevices =
     \<lparr>componentList = [exampleHub, deviceA, deviceB, deviceC], fileSystem = projectFolder\<rparr>"

definition hubProject :: State where
  "hubProject = \<lparr>componentList = [exampleDevice, exampleHub], fileSystem = projectFolder\<rparr>"

subsection \<open>Reading load\<close>

text \<open>\<open>load\<close> passes its guards and reaches the component records: a workspace is
  open, the device path and the board id are set, the \<open>.iotworkbenchproject\<close> file
  exists, and the project-config file exists and names a project type.\<close>

definition reachesComponents :: "Env \<Rightarrow> State \<Rightarrow> bool" where
  "reachesComponents env s =
     (workspaceFolders env \<noteq> None \<and> truthy (configGet env DevicePath) \<and>
      iotworkbenchprojectFile (fileSystem s) \<and> truthy (configGet env BoardId) \<and>
      (case projectConfigFile (fileSystem s) of
         None \<Rightarrow> False
       | Some projectConfigJson \<Rightarrow>
           (case projectConfigJson ProjectType of
              None \<Rightarrow> False
            | Some projectType \<Rightarrow> projectType \<noteq> StringValue [])))"

text \<open>The device \<open>load\<close> puts in front: none when no class has the configured board
  id.\<close>

definition deviceComponents :: "Env \<Rightarrow> Component list" where
  "deviceComponents env =
     (case configGet env BoardId of
        None \<Rightarrow> []
      | Some boardId \<Rightarrow>
          (case deviceClass env boardId of
             None \<Rightarrow> []
           | Some c \<Rightarrow> [newComponent env c []]))"

text \<open>The four record types the loop knows, and the class each stands for.\<close>

definition supportedType :: "string \<Rightarrow> bool" where
  "supportedType t =
     (t = ''IoTHub'' \<or> t = ''AzureFunctions'' \<or> t = ''StreamAnalyticsJob'' \<or> t = ''CosmosDB'')"

definition classOfType :: "string \<Rightarrow> ComponentClass" where
  "classOfType t =
     (if t = ''IoTHub'' then IoTHub
      else if t = ''AzureFunctions'' then AzureFunctions
      else if t = ''StreamAnalyticsJob'' then StreamAnalyticsJob
      else CosmosDB)"

text \<open>A record the loop can pass without leaving: its type is supported, and for an
  \<open>AzureFunctions\<close> record the function path is set.\<close>

definition passable :: "Env \<Rightarrow> ComponentConfig \<Rightarrow> bool" where
  "passable env r =
     (supportedType (config_type r) \<and>
      (if config_type r = ''AzureFunctions'' then truthy (configGet env FunctionPath)
       else True))"

text \<open>Every dependency id of every record is the id of a record earlier in the list
  (\<open>seen\<close> holds the ids met so far).\<close>

fun resolvable :: "string list \<Rightarrow> ComponentConfig list \<Rightarrow> bool" where
  "resolvable seen [] = True"
| "resolvable seen (r # rs) =
     (list_all (\<lambda>d. dependent_id d \<in> set seen) (config_dependencies r) \<and>
      resolvable (config_id r # seen) rs)"

text \<open>Class and id of the components the loop pushes for a list of records: one per
  record, and an \<open>IoTHubDevice\<close> behind every \<open>IoTHub\<close>.\<close>

fun recordEntries :: "Env \<Rightarrow> ComponentConfig list \<Rightarrow> (ComponentClass \<times> string) list" where
  "recordEntries env [] = []"
| "recordEntries env (r # rs) =
     (if config_type r = ''IoTHub'' then
        [(IoTHub, config_id r), (IoTHubDevice, newId env IoTHubDevice)]
      else [(classOfType (config_type r), config_id r)]) @ recordEntries env rs"

definition entry :: "Component \<Rightarrow> ComponentClass \<times> string" where
  "entry c = (cls c, componentId c)"

text \<open>The names every JavaScript object inherits from \<open>Object.prototype\<close>. For
  such a name \<open>components[name]\<close> is not \<open>undefined\<close> although nothing was stored
  under it, and an assignment to \<open>__proto__\<close> stores nothing. The ids of the component
  store are GUIDs; what is proved about the lookup is stated for records whose ids and
  dependency ids are none of these names.\<close>

definition objectPrototypeKeys :: "string list" where
  "objectPrototypeKeys =
     [''constructor'', ''__defineGetter__'', ''__defineSetter__'', ''hasOwnProperty'',
      ''__lookupGetter__'', ''__lookupSetter__'', ''isPrototypeOf'',
      ''propertyIsEnumerable'', ''toString'', ''valueOf'', ''__proto__'',
      ''toLocaleString'']"

definition plainId :: "string \<Rightarrow> bool" where
  "plainId i = (i \<notin> set objectPrototypeKeys)"

definition plainIds :: "ComponentConfig list \<Rightarrow> bool" where
  "plainIds records =
     list_all (\<lambda>r. plainId (config_id r) \<and>
                  list_all (\<lambda>d. plainId (dependent_id d)) (config_dependencies r)) records"

text \<open>The records of a stream-analytics project, and states to load them into.\<close>

definition hubRecord :: ComponentConfig where
  "hubRecord = \<lparr>config_id = ''id-hub'', config_type = ''IoTHub'', config_dependencies = []\<rparr>"

definition cosmosRecord :: ComponentConfig where
  "cosmosRecord =
     \<lparr>config_id = ''id-cosmos'', config_type = ''CosmosDB'', config_dependencies = []\<rparr>"

definition asaRecord :: ComponentConfig where
  "asaRecord =
     \<lparr>config_id = ''id-asa'', config_type = ''StreamAnalyticsJob'',
      config_dependencies =
        [\<lparr>dependent_id = ''id-hub'', dependent_type = Input\<rparr>,
         \<lparr>dependent_id = ''id-cosmos'', dependent_type = Other\<rparr>]\<rparr>"

definition functionsRecord :: ComponentConfig where
  "functionsRecord =
     \<lparr>config_id = ''id-functions'', config_type = ''AzureFunctions'',
      config_dependencies = [\<lparr>dependent_id = ''id-hub'', dependent_type = Input\<rparr>]\<rparr>"

definition openedProject :: State where
  "openedProject = \<lparr>componentList = [], fileSystem = projectFolder\<rparr>"

text \<open>The example project with the function path set and the given component
  records; and the example project without records, in which the hub fails its
  prerequisites.\<close>

definition recordsEnv :: "ComponentConfig list \<Rightarrow> Env" where
  "recordsEnv records =
     exampleEnv\<lparr>getSortedComponents := Some records,
                configGet := (configGet exampleEnv)(FunctionPath \<mapsto> ''Functions'')\<rparr>"

definition legacyEnv :: Env where
  "legacyEnv =
     exampleEnv\<lparr>configGet := (configGet exampleEnv)(FunctionPath \<mapsto> ''Functions''),
                checkPrerequisites := (\<lambda>c. cls c \<noteq> IoTHub)\<rparr>"

text \<open>An existing, empty root folder in which no project was created yet.\<close>

definition emptyProject :: State where
  "emptyProject = \<lparr>componentList = [], fileSystem = emptyFolder\<rparr>"

text \<open>What two runs of \<open>load\<close> find unchanged when the persisted descriptor is
  unchanged: the workspace and its settings, the component records, the board ids of
  the device classes and the two project files \<open>load\<close> reads. The registries the runs
  start from, the ids the constructors hand out and everything the components, the
  dialogs and Azure answer may differ.\<close>

definition sameDescriptor :: "Env \<Rightarrow> State \<Rightarrow> Env \<Rightarrow> State \<Rightarrow> bool" where
  "sameDescriptor env1 s1 env2 s2 =
     (workspaceFolders env1 = workspaceFolders env2 \<and> configGet env1 = configGet env2 \<and>
      getSortedComponents env1 = getSortedComponents env2 \<and>
      boardIdOf env1 = boardIdOf env2 \<and>
      iotworkbenchprojectFile (fileSystem s1) = iotworkbenchprojectFile (fileSystem s2) \<and>
      projectConfigFile (fileSystem s1) = projectConfigFile (fileSystem s2))"

text \<open>The component records of the descriptor, none when the store returns nothing.\<close>

definition recordsOf :: "Env \<Rightarrow> ComponentConfig list" where
  "recordsOf env = (case getSortedComponents env of None \<Rightarrow> [] | Some records \<Rightarrow> records)"

text \<open>What the descriptor says of a component: its type, and its id when it is of a
  class that is built from a record. The id of a device and of an \<open>IoTHubDevice\<close> is
  the one its constructor gave it.\<close>

definition recordClass :: "ComponentClass \<Rightarrow> bool" where
  "recordClass c = (c = IoTHub \<or> c = AzureFunctions \<or> c = StreamAnalyticsJob \<or> c = CosmosDB)"

definition typeAndRecordId :: "Component \<Rightarrow> ComponentClass \<times> string option" where
  "typeAndRecordId c = (cls c, if recordClass (cls c) then Some (componentId c) else None)"

text \<open>The registry as a function of the descriptor alone: the result of \<open>load\<close> and,
  in order, type and record id of the components it appends. \<open>recordsRegistry\<close> reads
  a list of records, \<open>seen\<close> holding the ids of the records before it (plain ids, see
  \<open>plainIds\<close>); \<open>legacyRegistry\<close> is the branch for projects without records, whose
  components have no record to take an id from.\<close>

fun behind :: "'b list \<Rightarrow> 'a \<times> 'b list \<Rightarrow> 'a \<times> 'b list" where
  "behind vs (r, ws) = (r, vs @ ws)"

fun recordsRegistry ::
  "bool \<Rightarrow> string list \<Rightarrow> ComponentConfig list
     \<Rightarrow> bool outcome \<times> (ComponentClass \<times> string option) list" where
  "recordsRegistry functionPathSet seen [] = (Returned True, [])"
| "recordsRegistry functionPathSet seen (r # rs) =
     (if config_type r = ''IoTHub'' then
        behind [(IoTHub, Some (config_id r)), (IoTHubDevice, None)]
          (recordsRegistry functionPathSet (config_id r # seen) rs)
      else if config_type r = ''AzureFunctions'' then
        (if functionPathSet then
           behind [(AzureFunctions, Some (config_id r))]
             (recordsRegistry functionPathSet (config_id r # seen) rs)
         else (Returned False, []))
      else if config_type r = ''StreamAnalyticsJob'' \<or> config_type r = ''CosmosDB'' then
        (if list_all (\<lambda>d. dependent_id d \<in> set seen) (config_dependencies r) then
           behind [(classOfType (config_type r), Some (config_id r))]
             (recordsRegistry functionPathSet (config_id r # seen) rs)
         else (Threw CannotFindComponent, []))
      else (Threw (ComponentNotSupported (config_type r)), []))"

definition legacyRegistry ::
  "bool \<Rightarrow> bool outcome \<times> (ComponentClass \<times> string option) list" where
  "legacyRegistry functionPathSet =
     (Returned True,
      [(IoTHub, None), (IoTHubDevice, None)] @
      (if functionPathSet then [(AzureFunctions, None)] else []))"

definition deviceRegistry :: "Env \<Rightarrow> (ComponentClass \<times> string option) list" where
  "deviceRegistry env =
     (case configGet env BoardId of
        None \<Rightarrow> []
      | Some boardId \<Rightarrow>
          (case deviceClass env boardId of
             None \<Rightarrow> []
           | Some c \<Rightarrow> [(c, None)]))"

definition descriptorRegistry ::
  "Env \<Rightarrow> State \<Rightarrow> bool outcome \<times> (ComponentClass \<times> string option) list" where
  "descriptorRegistry env s =
     (if reachesComponents env s then
        behind (deviceRegistry env)
          (if recordsOf env = [] then legacyRegistry (truthy (configGet env FunctionPath))
           else recordsRegistry (truthy (configGet env FunctionPath)) [] (recordsOf env))
      else (Returned False, []))"

text \<open>A second environment for the example project: the same descriptor, other ids
  from the constructors, every prerequisite check failing.\<close>

definition otherId :: "ComponentClass \<Rightarrow> string" where
  "otherId c = ''second-'' @ exampleId c"

definition secondRunEnv :: "ComponentConfig list \<Rightarrow> Env" where
  "secondRunEnv records =
     (recordsEnv records)\<lparr>newId := otherId, checkPrerequisites := (\<lambda>c. False)\<rparr>"

subsection \<open>Reading compile and upload\<close>

text \<open>A component does not stop the compile phase: it cannot be compiled, or it passes
  its prerequisite check and its \<open>compile()\<close> returns true. \<open>compileActions\<close> are the
  calls the phase makes on a list of such components: for every component that can be
  compiled, in order, the check and then the \<open>compile()\<close>. Likewise for upload.\<close>

definition compilesWell :: "Env \<Rightarrow> Component \<Rightarrow> bool" where
  "compilesWell env c =
     (if canCompile env c
      then checkPrerequisites env c \<and> component_compile env c = Returned True
      else True)"

definition compileActions :: "Env \<Rightarrow> Component list \<Rightarrow> Event list" where
  "compileActions env cs =
     concat (map (\<lambda>c. if canCompile env c
                        then [E_checkPrerequisites c True, E_compile c (Returned True)]
                        else []) cs)"

definition uploadsWell :: "Env \<Rightarrow> Component \<Rightarrow> bool" where
  "uploadsWell env c =
     (if canUpload env c
      then checkPrerequisites env c \<and> component_upload env c = Returned True
      else True)"

definition uploadActions :: "Env \<Rightarrow> Component list \<Rightarrow> Event list" where
  "uploadActions env cs =
     concat (map (\<lambda>c. if canUpload env c
                        then [E_checkPrerequisites c True, E_upload c (Returned True)]
                        else []) cs)"

subsection \<open>Reaching a record\<close>

text \<open>The loop of \<open>load\<close> passes every record of a list without leaving: each
  record is passable, and for each record of type \<open>StreamAnalyticsJob\<close> or \<open>CosmosDB\<close>
  (the two cases that look dependencies up) every dependency id is the id of an
  earlier record. The dependency lists of \<open>IoTHub\<close> and \<open>AzureFunctions\<close> records are
  not read by the loop and play no part.\<close>

fun loopPasses :: "Env \<Rightarrow> string list \<Rightarrow> ComponentConfig list \<Rightarrow> bool" where
  "loopPasses env seen [] = True"
| "loopPasses env seen (r # rs) =
     (passable env r \<and>
      (if config_type r = ''StreamAnalyticsJob'' \<or> config_type r = ''CosmosDB''
       then list_all (\<lambda>d. dependent_id d \<in> set seen) (config_dependencies r)
       else True) \<and>
      loopPasses env (config_id r # seen) rs)"

text \<open>A hub record that lists a dependency no record has.\<close>

definition hubWithDependency :: ComponentConfig where
  "hubWithDependency =
     \<lparr>config_id = ''id-hub'', config_type = ''IoTHub'',
      config_dependencies = [\<lparr>dependent_id = ''id-missing'', dependent_type = Other\<rparr>]\<rparr>"

section \<open>Properties\<close>

subsection \<open>compile and upload\<close>

lemma compile_loop_calls:
  "prefix (compileCalls (snd (compile_loop env cs))) (filter (canCompile env) cs)"
  by (induction cs) (auto split: outcome.splits prod.splits)

lemma upload_loop_calls:
  "prefix (uploadCalls (snd (upload_loop env cs))) (filter (canUpload env) cs)"
  by (induction cs) (auto split: outcome.splits prod.splits)

lemma compile_loop_prerequisites:
  "E_checkPrerequisites c False \<in> set (snd (compile_loop env cs)) \<Longrightarrow>
     fst (compile_loop env cs) = Returned False \<and>
     last (snd (compile_loop env cs)) = E_checkPrerequisites c False"
  by (induction cs) (auto split: outcome.splits prod.splits if_splits)

lemma upload_loop_prerequisites:
  "E_checkPrerequisites c False \<in> set (snd (upload_loop env cs)) \<Longrightarrow>
     fst (upload_loop env cs) = Returned False \<and>
     last (snd (upload_loop env cs)) = E_checkPrerequisites c False"
  by (induction cs) (auto split: outcome.splits prod.splits if_splits)

lemma compile_loop_well:
  "list_all (compilesWell env) pre \<Longrightarrow>
     compile_loop env (pre @ rest) =
       (fst (compile_loop env rest), compileActions env pre @ snd (compile_loop env rest))"
  by (induction pre) (auto simp: compilesWell_def compileActions_def split: if_splits)

lemma upload_loop_well:
  "list_all (uploadsWell env) pre \<Longrightarrow>
     upload_loop env (pre @ rest) =
       (fst (upload_loop env rest), uploadActions env pre @ snd (upload_loop env rest))"
  by (induction pre) (auto simp: uploadsWell_def uploadActions_def split: if_splits)

lemma compile_all_well:
  assumes "list_all (compilesWell env) (componentList s)"
  shows "compile env s = (Returned True, compileActions env (componentList s))"
  using compile_loop_well [OF assms, of "[]"] by (simp add: compile_def)

lemma compile_stops_at_check:
  assumes "componentList s = pre @ c # post" and "list_all (compilesWell env) pre"
    and "canCompile env c" and "\<not> checkPrerequisites env c"
  shows "compile env s = (Returned False, compileActions env pre @ [E_checkPrerequisites c False])"
  using compile_loop_well [OF assms(2), of "c # post"] assms(1,3,4) by (simp add: compile_def)

lemma compile_reaches:
  assumes "componentList s = pre @ c # post" and "list_all (compilesWell env) pre"
    and "canCompile env c" and "checkPrerequisites env c"
  shows "\<exists>evs. snd (compile env s) =
           compileActions env pre @ E_checkPrerequisites c True
             # E_compile c (component_compile env c) # evs"
  using compile_loop_well [OF assms(2), of "c # post"] assms(1,3,4)
  by (auto simp: compile_def split: outcome.splits prod.splits)

lemma upload_all_well:
  assumes "list_all (uploadsWell env) (componentList s)"
  shows "upload env s = (Returned True, uploadActions env (componentList s))"
  using upload_loop_well [OF assms, of "[]"] by (simp add: upload_def)

lemma upload_stops_at_check:
  assumes "componentList s = pre @ c # post" and "list_all (uploadsWell env) pre"
    and "canUpload env c" and "\<not> checkPrerequisites env c"
  shows "upload env s = (Returned False, uploadActions env pre @ [E_checkPrerequisites c False])"
  using upload_loop_well [OF assms(2), of "c # post"] assms(1,3,4) by (simp add: upload_def)

lemma upload_reaches:
  assumes "componentList s = pre @ c # post" and "list_all (uploadsWell env) pre"
    and "canUpload env c" and "checkPrerequisites env c"
  shows "\<exists>evs. snd (upload env s) =
           uploadActions env pre @ E_checkPrerequisites c True
             # E_upload c (component_upload env c) # evs"
  using upload_loop_well [OF assms(2), of "c # post"] assms(1,3,4)
  by (auto simp: upload_def split: outcome.splits prod.splits)

text \<open>
  Claim C5. \<open>compile()\<close> and \<open>upload()\<close> walk the registry in order and invoke the
  phase method only on components with the capability: the components compiled
  (uploaded), in the order of the calls, are a prefix of the registry filtered by
  \<open>canCompile\<close> (\<open>canUpload\<close>). When a \<open>checkPrerequisites()\<close> of the phase returns
  false, the call returns false and that check is the last thing the phase did: no
  phase method is invoked on any component after that point. The phase does act:
  when no component stops it, every component with the capability is checked and
  compiled (uploaded), in registry order, and the call returns true; and the first
  component with the capability behind components that do not stop the phase is
  checked, and then compiled (uploaded) if the check passes, while a failing check
  ends the call with false, after the calls already made on the components before it.
\<close>

theorem compile_upload_prerequisites:
  "prefix (compileCalls (snd (compile env s))) (filter (canCompile env) (componentList s)) \<and>
   prefix (uploadCalls (snd (upload env s))) (filter (canUpload env) (componentList s)) \<and>
   (\<forall>c. E_checkPrerequisites c False \<in> set (snd (compile env s)) \<longrightarrow>
      fst (compile env s) = Returned False \<and>
      last (snd (compile env s)) = E_checkPrerequisites c False) \<and>
   (\<forall>c. E_checkPrerequisites c False \<in> set (snd (upload env s)) \<longrightarrow>
      fst (upload env s) = Returned False \<and>
      last (snd (upload env s)) = E_checkPrerequisites c False) \<and>
   (list_all (compilesWell env) (componentList s) \<longrightarrow>
      compile env s = (Returned True, compileActions env (componentList s))) \<and>
   (list_all (uploadsWell env) (componentList s) \<longrightarrow>
      upload env s = (Returned True, uploadActions env (componentList s))) \<and>
   (\<forall>pre c post.
      componentList s = pre @ c # post \<and> list_all (compilesWell env) pre \<and>
      canCompile env c \<longrightarrow>
        (if checkPrerequisites env c
         then \<exists>evs. snd (compile env s) =
                compileActions env pre @ E_checkPrerequisites c True
                  # E_compile c (component_compile env c) # evs
         else compile env s =
                (Returned False, compileActions env pre @ [E_checkPrerequisites c False]))) \<and>
   (\<forall>pre c post.
      componentList s = pre @ c # post \<and> list_all (uploadsWell env) pre \<and>
      canUpload env c \<longrightarrow>
        (if checkPrerequisites env c
         then \<exists>evs. snd (upload env s) =
                uploadActions env pre @ E_checkPrerequisites c True
                  # E_upload c (component_upload env c) # evs
         else upload env s =
                (Returned False, uploadActions env pre @ [E_checkPrerequisites c False])))"
proof -
  have old: "prefix (compileCalls (snd (compile env s))) (filter (canCompile env) (componentList s))"
    "prefix (uploadCalls (snd (upload env s))) (filter (canUpload env) (componentList s))"
    "\<forall>c. E_checkPrerequisites c False \<in> set (snd (compile env s)) \<longrightarrow>
      fst (compile env s) = Returned False \<and>
      last (snd (compile env s)) = E_checkPrerequisites c False"
    "\<forall>c. E_checkPrerequisites c False \<in> set (snd (upload env s)) \<longrightarrow>
      fst (upload env s) = Returned False \<and>
      last (snd (upload env s)) = E_checkPrerequisites c False"
    unfolding compile_def upload_def
    using compile_loop_calls upload_loop_calls compile_loop_prerequisites
      upload_loop_prerequisites by blast+
  have c: "\<forall>pre c post.
      componentList s = pre @ c # post \<and> list_all (compilesWell env) pre \<and>
      canCompile env c \<longrightarrow>
        (if checkPrerequisites env c
         then \<exists>evs. snd (compile env s) =
                compileActions env pre @ E_checkPrerequisites c True
                  # E_compile c (component_compile env c) # evs
         else compile env s =
                (Returned False, compileActions env pre @ [E_checkPrerequisites c False]))"
    using compile_reaches [of s _ _ _ env] compile_stops_at_check [of s _ _ _ env]
    by (simp split: if_splits) blast
  have u: "\<forall>pre c post.
      componentList s = pre @ c # post \<and> list_all (uploadsWell env) pre \<and>
      canUpload env c \<longrightarrow>
        (if checkPrerequisites env c
         then \<exists>evs. snd (upload env s) =
                uploadActions env pre @ E_checkPrerequisites c True
                  # E_upload c (component_upload env c) # evs
         else upload env s =
                (Returned False, uploadActions env pre @ [E_checkPrerequisites c False]))"
    using upload_reaches [of s _ _ _ env] upload_stops_at_check [of s _ _ _ env]
    by (simp split: if_splits) blast
  from old c u compile_all_well [of env s] upload_all_well [of env s]
  show ?thesis by blast
qed

text \<open>
  Instances of C5. The hub cannot be compiled, device \<open>a\<close> passes its check and is
  compiled, device \<open>b\<close> fails its check: the call returns false and device \<open>c\<close> is
  never looked at. When every check passes, the three devices are compiled in order
  and the call returns true. The same for upload.
\<close>

theorem compile_upload_prerequisites_witness:
  "componentList threeDevices = [exampleHub, deviceA] @ deviceB # [deviceC] \<and>
   list_all (compilesWell (exampleEnv\<lparr>checkPrerequisites := (\<lambda>c. componentId c \<noteq> ''b'')\<rparr>))
     [exampleHub, deviceA] \<and>
   canCompile (exampleEnv\<lparr>checkPrerequisites := (\<lambda>c. componentId c \<noteq> ''b'')\<rparr>) deviceB \<and>
   \<not> checkPrerequisites (exampleEnv\<lparr>checkPrerequisites := (\<lambda>c. componentId c \<noteq> ''b'')\<rparr>) deviceB \<and>
   E_checkPrerequisites deviceB False
     \<in> set (snd (compile (exampleEnv\<lparr>checkPrerequisites := (\<lambda>c. componentId c \<noteq> ''b'')\<rparr>)
                   threeDevices)) \<and>
   compile (exampleEnv\<lparr>checkPrerequisites := (\<lambda>c. componentId c \<noteq> ''b'')\<rparr>) threeDevices
     = (Returned False,
        [E_checkPrerequisites deviceA True, E_compile deviceA (Returned True),
         E_checkPrerequisites deviceB False]) \<and>
   compileCalls (snd (compile (exampleEnv\<lparr>checkPrerequisites := (\<lambda>c. componentId c \<noteq> ''b'')\<rparr>)
                        threeDevices)) = [deviceA] \<and>
   list_all (uploadsWell (exampleEnv\<lparr>checkPrerequisites := (\<lambda>c. componentId c \<noteq> ''b'')\<rparr>))
     [exampleHub, deviceA] \<and>
   E_checkPrerequisites deviceB False
     \<in> set (snd (upload (exampleEnv\<lparr>checkPrerequisites := (\<lambda>c. componentId c \<noteq> ''b'')\<rparr>)
                   threeDevices)) \<and>
   upload (exampleEnv\<lparr>checkPrerequisites := (\<lambda>c. componentId c \<noteq> ''b'')\<rparr>) threeDevices
     = (Returned False,
        [E_checkPrerequisites deviceA True, E_upload deviceA (Returned True),
         E_checkPrerequisites deviceB False]) \<and>
   uploadCalls (snd (upload (exampleEnv\<lparr>checkPrerequisites := (\<lambda>c. componentId c \<noteq> ''b'')\<rparr>)
                       threeDevices)) = [deviceA] \<and>
   list_all (compilesWell exampleEnv) (componentList threeDevices) \<and>
   compile exampleEnv threeDevices
     = (Returned True,
        [E_checkPrerequisites deviceA True, E_compile deviceA (Returned True),
         E_checkPrerequisites deviceB True, E_compile deviceB (Returned True),
         E_checkPrerequisites deviceC True, E_compile deviceC (Returned True)]) \<and>
   list_all (uploadsWell exampleEnv) (componentList threeDevices) \<and>
   upload exampleEnv threeDevices
     = (Returned True,
        [E_checkPrerequisites deviceA True, E_upload deviceA (Returned True),
         E_checkPrerequisites deviceB True, E_upload deviceB (Returned True),
         E_checkPrerequisites deviceC True, E_upload deviceC (Returned True)])"
proof -
  let ?env = "exampleEnv\<lparr>checkPrerequisites := (\<lambda>c. componentId c \<noteq> ''b'')\<rparr>"
  have h: "componentList threeDevices = [exampleHub, deviceA] @ deviceB # [deviceC]"
    "list_all (compilesWell ?env) [exampleHub, deviceA]"
    "list_all (uploadsWell ?env) [exampleHub, deviceA]"
    "canCompile ?env deviceB" "canUpload ?env deviceB" "\<not> checkPrerequisites ?env deviceB"
    "list_all (compilesWell exampleEnv) (componentList threeDevices)"
    "list_all (uploadsWell exampleEnv) (componentList threeDevices)"
    by (simp_all add: compilesWell_def uploadsWell_def exampleEnv_def threeDevices_def
          exampleHub_def deviceA_def deviceB_def deviceC_def)
  have a: "compileActions ?env [exampleHub, deviceA] =
             [E_checkPrerequisites deviceA True, E_compile deviceA (Returned True)]"
    "uploadActions ?env [exampleHub, deviceA] =
             [E_checkPrerequisites deviceA True, E_upload deviceA (Returned True)]"
    "compileActions exampleEnv (componentList threeDevices) =
        [E_checkPrerequisites deviceA True, E_compile deviceA (Returned True),
         E_checkPrerequisites deviceB True, E_compile deviceB (Returned True),
         E_checkPrerequisites deviceC True, E_compile deviceC (Returned True)]"
    "uploadActions exampleEnv (componentList threeDevices) =
        [E_checkPrerequisites deviceA True, E_upload deviceA (Returned True),
         E_checkPrerequisites deviceB True, E_upload deviceB (Returned True),
         E_checkPrerequisites deviceC True, E_upload deviceC (Returned True)]"
    by (simp_all add: compileActions_def uploadActions_def exampleEnv_def threeDevices_def
          exampleHub_def deviceA_def deviceB_def deviceC_def)
  from compile_upload_prerequisites [of ?env threeDevices]
  have "compile ?env threeDevices =
          (Returned False, compileActions ?env [exampleHub, deviceA]
             @ [E_checkPrerequisites deviceB False])"
       "upload ?env threeDevices =
          (Returned False, uploadActions ?env [exampleHub, deviceA]
             @ [E_checkPrerequisites deviceB False])"
    using h(1-6) by metis+
  moreover from compile_upload_prerequisites [of exampleEnv threeDevices]
  have "compile exampleEnv threeDevices =
          (Returned True, compileActions exampleEnv (componentList threeDevices))"
       "upload exampleEnv threeDevices =
          (Returned True, uploadActions exampleEnv (componentList threeDevices))"
    using h(7,8) by blast+
  ultimately show ?thesis using h a by simp
qed

subsection \<open>A phase action that returns false\<close>

lemma compile_loop_false:
  "E_compile c (Returned False) \<in> set (snd (compile_loop env cs)) \<Longrightarrow>
     fst (compile_loop env cs) = Threw UnableToCompile \<and>
     last (snd (compile_loop env cs)) = E_compile c (Returned False)"
  by (induction cs) (auto split: outcome.splits prod.splits if_splits)

lemma upload_loop_false:
  "E_upload c (Returned False) \<in> set (snd (upload_loop env cs)) \<Longrightarrow>
     fst (upload_loop env cs) = Threw UnableToUpload \<and>
     last (snd (upload_loop env cs)) = E_upload c (Returned False)"
  by (induction cs) (auto split: outcome.splits prod.splits if_splits)

lemma deploy_loop_false:
  "E_deploy c (Returned False) \<in> set (snd (deploy_loop env items cs)) \<Longrightarrow>
     fst (deploy_loop env items cs) = Threw (DeploymentFailed (name env c)) \<and>
     last (snd (deploy_loop env items cs)) = E_deploy c (Returned False)"
  by (induction cs) (auto simp: Let_def split: outcome.splits prod.splits if_splits)

lemma provision_loop_false:
  "E_provision c (Returned False) \<in> set (snd (provision_loop env items cs)) \<Longrightarrow>
     fst (provision_loop env items cs) = Returned False \<and>
     (\<exists>pre. snd (provision_loop env items cs) =
        pre @ [E_provision c (Returned False), E_showWarningMessage ''Provision canceled.''])"
proof (induction cs)
  case Nil
  then show ?case by simp
next
  case (Cons item rest)
  show ?case
  proof (cases "canProvision env item")
    case False
    with Cons show ?thesis by simp
  next
    case can: True
    show ?thesis
    proof (cases "showQuickPick env (itemLabel items (name env item))")
      case False
      with can Cons.prems show ?thesis by (simp add: Let_def)
    next
      case pick: True
      show ?thesis
      proof (cases "component_provision env item")
        case (Threw e)
        with can pick Cons.prems show ?thesis by (simp add: Let_def)
      next
        case (Returned res)
        show ?thesis
        proof (cases res)
          case False
          with can pick Returned Cons.prems show ?thesis by (auto simp: Let_def)
        next
          case True
          with can pick Returned Cons.prems
          have "E_provision c (Returned False) \<in> set (snd (provision_loop env items rest))"
            by (auto simp: Let_def split: prod.splits)
          from Cons.IH [OF this] obtain pre where
            r: "fst (provision_loop env items rest) = Returned False" and
            e: "snd (provision_loop env items rest) =
                  pre @ [E_provision c (Returned False),
                         E_showWarningMessage ''Provision canceled.'']"
            by blast
          have "snd (provision_loop env items (item # rest)) =
                  (E_showQuickPick (itemLabel items (name env item)) True
                     # E_provision item (Returned True) # pre)
                  @ [E_provision c (Returned False),
                     E_showWarningMessage ''Provision canceled.'']"
            using can pick Returned True e by (simp add: Let_def split_beta)
          moreover have "fst (provision_loop env items (item # rest)) = Returned False"
            using can pick Returned True r by (simp add: Let_def split_beta)
          ultimately show ?thesis by blast
        qed
      qed
    qed
  qed
qed

lemma provisionItemList_events:
  "set (snd (provisionItemList env cs)) \<subseteq> range (\<lambda>(c, b). E_checkPrerequisites c b)"
  by (induction cs) (auto split: prod.splits option.splits)

lemma deployItemList_events:
  "set (snd (deployItemList env cs)) \<subseteq> range (\<lambda>(c, b). E_checkPrerequisites c b)"
  by (induction cs) (auto split: prod.splits option.splits)

lemma deploy_false:
  assumes "E_deploy c (Returned False) \<in> set (snd (deploy env s))"
  shows "fst (deploy env s) = Threw (DeploymentFailed (name env c)) \<and>
         last (snd (deploy env s)) = E_deploy c (Returned False)"
proof -
  obtain items evs where il: "deployItemList env (componentList s) = (items, evs)"
    by (cases "deployItemList env (componentList s)")
  have noev: "E_deploy c (Returned False) \<notin> set evs"
    using deployItemList_events [of env "componentList s"] il by auto
  show ?thesis
  proof (cases items)
    case None
    with il assms noev show ?thesis by (simp add: deploy_def)
  next
    case (Some itemList)
    show ?thesis
    proof (cases "length itemList \<le> 0")
      case True
      with il Some assms noev show ?thesis by (simp add: deploy_def)
    next
      case False
      show ?thesis
      proof (cases "checkAzureLogin env")
        case (Threw e)
        with il Some False assms noev show ?thesis by (simp add: deploy_def)
      next
        case (Returned b)
        obtain r evs2 where dl: "deploy_loop env itemList (componentList s) = (r, evs2)"
          by (cases "deploy_loop env itemList (componentList s)")
        from il Some False Returned dl
        have d: "deploy env s = (r, evs @ [E_checkAzureLogin (Returned b)] @ evs2)"
          by (simp add: deploy_def)
        with assms noev have "E_deploy c (Returned False) \<in> set evs2" by auto
        with dl deploy_loop_false [of c env itemList "componentList s"]
        have "r = Threw (DeploymentFailed (name env c))"
             "last evs2 = E_deploy c (Returned False)" "evs2 \<noteq> []" by auto
        with d show ?thesis by simp
      qed
    qed
  qed
qed

lemma provision_false:
  assumes "E_provision c (Returned False) \<in> set (snd (provision env s))"
  shows "fst (provision env s) = Returned False \<and>
         (\<exists>pre. snd (provision env s) =
            pre @ [E_provision c (Returned False),
                   E_showWarningMessage ''Provision canceled.''])"
proof -
  obtain items evs where il: "provisionItemList env (componentList s) = (items, evs)"
    by (cases "provisionItemList env (componentList s)")
  have noev: "E_provision c (Returned False) \<notin> set evs"
    using provisionItemList_events [of env "componentList s"] il by auto
  show ?thesis
  proof (cases "truthy (configGet env DevicePath)")
    case False
    with assms show ?thesis by (simp add: provision_def)
  next
    case dp: True
    show ?thesis
    proof (cases items)
      case None
      with il dp assms noev show ?thesis by (simp add: provision_def)
    next
      case (Some itemList)
      show ?thesis
      proof (cases "length itemList = 0")
        case True
        with il dp Some assms noev show ?thesis by (simp add: provision_def)
      next
        case False
        show ?thesis
        proof (cases "checkAzureLogin env")
          case (Threw e)
          with il dp Some False assms noev show ?thesis by (simp add: provision_def)
        next
          case (Returned b)
          show ?thesis
          proof (cases "truthy (getResourceGroup env) \<and> truthy (subscriptionId env)")
            case False
            with il dp Some \<open>length itemList \<noteq> 0\<close> Returned assms noev show ?thesis
              by (auto simp: provision_def Let_def)
          next
            case True
            obtain r evs2 where
              pl: "provision_loop env itemList (componentList s) = (r, evs2)"
              by (cases "provision_loop env itemList (componentList s)")
            from il dp Some False Returned True pl
            have d: "provision env s =
                       (r, (evs @ [E_checkAzureLogin (Returned b), E_AzureUtility_init,
                              E_getResourceGroup (getResourceGroup env)]) @ evs2)"
              by (simp add: provision_def Let_def)
            with assms noev have "E_provision c (Returned False) \<in> set evs2" by auto
            with pl provision_loop_false [of c env itemList "componentList s"]
            obtain pre where "r = Returned False"
              "evs2 = pre @ [E_provision c (Returned False),
                             E_showWarningMessage ''Provision canceled.'']" by auto
            with d show ?thesis by (metis append_assoc fst_conv snd_conv)
          qed
        qed
      qed
    qed
  qed
qed

text \<open>
  Claim C8, as the class has it. In \<open>compile\<close>, \<open>upload\<close> and \<open>deploy\<close> a phase
  action that returns false is re-raised as a thrown error, and the failing call is the
  last thing the phase did. The errors of \<open>compile\<close> and \<open>upload\<close> carry a fixed text
  that names the action; the error of \<open>deploy\<close> names the component. In \<open>provision\<close>
  a false result is not thrown: the driver shows the warning "Provision canceled." and
  returns false, and nothing follows the warning.
\<close>

theorem phase_action_returns_false:
  "(\<forall>c. E_compile c (Returned False) \<in> set (snd (compile env s)) \<longrightarrow>
      fst (compile env s) = Threw UnableToCompile \<and>
      last (snd (compile env s)) = E_compile c (Returned False)) \<and>
   (\<forall>c. E_upload c (Returned False) \<in> set (snd (upload env s)) \<longrightarrow>
      fst (upload env s) = Threw UnableToUpload \<and>
      last (snd (upload env s)) = E_upload c (Returned False)) \<and>
   (\<forall>c. E_deploy c (Returned False) \<in> set (snd (deploy env s)) \<longrightarrow>
      fst (deploy env s) = Threw (DeploymentFailed (name env c)) \<and>
      message (DeploymentFailed (name env c)) = ''The deployment of '' @ name env c @ '' failed.'' \<and>
      last (snd (deploy env s)) = E_deploy c (Returned False)) \<and>
   (\<forall>c. E_provision c (Returned False) \<in> set (snd (provision env s)) \<longrightarrow>
      fst (provision env s) = Returned False \<and>
      (\<exists>pre. snd (provision env s) =
         pre @ [E_provision c (Returned False),
                E_showWarningMessage ''Provision canceled.'']))"
  using compile_loop_false [of _ env "componentList s"]
    upload_loop_false [of _ env "componentList s"]
    deploy_false [of _ env s] provision_false [of _ env s]
  by (simp add: compile_def upload_def)

text \<open>
  An instance of C8 for each phase, on the project of one device and one hub: the
  device's \<open>compile()\<close> and \<open>upload()\<close>, and the hub's \<open>deploy()\<close> and \<open>provision()\<close>
  return false.
\<close>

theorem phase_action_returns_false_witness:
  "E_compile exampleDevice (Returned False)
     \<in> set (snd (compile (exampleEnv\<lparr>component_compile := (\<lambda>c. Returned False)\<rparr>) hubProject)) \<and>
   fst (compile (exampleEnv\<lparr>component_compile := (\<lambda>c. Returned False)\<rparr>) hubProject)
     = Threw UnableToCompile \<and>
   E_upload exampleDevice (Returned False)
     \<in> set (snd (upload (exampleEnv\<lparr>component_upload := (\<lambda>c. Returned False)\<rparr>) hubProject)) \<and>
   fst (upload (exampleEnv\<lparr>component_upload := (\<lambda>c. Returned False)\<rparr>) hubProject)
     = Threw UnableToUpload \<and>
   E_deploy exampleHub (Returned False)
     \<in> set (snd (deploy (exampleEnv\<lparr>component_deploy := (\<lambda>c. Returned False)\<rparr>) hubProject)) \<and>
   fst (deploy (exampleEnv\<lparr>component_deploy := (\<lambda>c. Returned False)\<rparr>) hubProject)
     = Threw (DeploymentFailed ''IoT Hub'') \<and>
   E_provision exampleHub (Returned False)
     \<in> set (snd (provision (exampleEnv\<lparr>component_provision := (\<lambda>c. Returned False)\<rparr>) hubProject)) \<and>
   fst (provision (exampleEnv\<lparr>component_provision := (\<lambda>c. Returned False)\<rparr>) hubProject)
     = Returned False"
proof -
  have c: "compile (exampleEnv\<lparr>component_compile := (\<lambda>c. Returned False)\<rparr>) hubProject =
            (Threw UnableToCompile,
             [E_checkPrerequisites exampleDevice True, E_compile exampleDevice (Returned False)])"
    by (simp add: compile_def exampleEnv_def hubProject_def exampleHub_def exampleDevice_def)
  have u: "upload (exampleEnv\<lparr>component_upload := (\<lambda>c. Returned False)\<rparr>) hubProject =
            (Threw UnableToUpload,
             [E_checkPrerequisites exampleDevice True, E_upload exampleDevice (Returned False)])"
    by (simp add: upload_def exampleEnv_def hubProject_def exampleHub_def exampleDevice_def)
  have d: "deploy (exampleEnv\<lparr>component_deploy := (\<lambda>c. Returned False)\<rparr>) hubProject =
            (Threw (DeploymentFailed ''IoT Hub''),
             [E_checkPrerequisites exampleHub True, E_checkAzureLogin (Returned True),
              E_showQuickPick ''>> 1. IoT Hub'' True, E_deploy exampleHub (Returned False)])"
    by (simp add: deploy_def exampleEnv_def hubProject_def exampleHub_def exampleDevice_def
          itemLabel_def toString.simps)
  have p: "provision (exampleEnv\<lparr>component_provision := (\<lambda>c. Returned False)\<rparr>) hubProject =
            (Returned False,
             [E_checkPrerequisites exampleHub True, E_checkAzureLogin (Returned True),
              E_AzureUtility_init, E_getResourceGroup (Some ''demo-group''),
              E_showQuickPick ''>> 1. IoT Hub'' True, E_provision exampleHub (Returned False),
              E_showWarningMessage ''Provision canceled.''])"
    by (simp add: provision_def exampleEnv_def hubProject_def exampleHub_def exampleDevice_def
          itemLabel_def toString.simps)
  from phase_action_returns_false
         [of "exampleEnv\<lparr>component_compile := (\<lambda>c. Returned False)\<rparr>" hubProject]
       phase_action_returns_false
         [of "exampleEnv\<lparr>component_upload := (\<lambda>c. Returned False)\<rparr>" hubProject]
       phase_action_returns_false
         [of "exampleEnv\<lparr>component_deploy := (\<lambda>c. Returned False)\<rparr>" hubProject]
       phase_action_returns_false
         [of "exampleEnv\<lparr>component_provision := (\<lambda>c. Returned False)\<rparr>" hubProject]
  show ?thesis unfolding c u d p by simp
qed

text \<open>
  C8 as stated fails for \<open>provision\<close>: the hub's \<open>provision()\<close> returns false during
  the provision phase, and the driver returns false; it throws nothing.
\<close>

theorem provision_false_not_thrown_counterexample:
  "E_provision exampleHub (Returned False)
     \<in> set (snd (provision (exampleEnv\<lparr>component_provision := (\<lambda>c. Returned False)\<rparr>) hubProject)) \<and>
   fst (provision (exampleEnv\<lparr>component_provision := (\<lambda>c. Returned False)\<rparr>) hubProject)
     = Returned False \<and>
   (\<forall>e. fst (provision (exampleEnv\<lparr>component_provision := (\<lambda>c. Returned False)\<rparr>) hubProject)
     \<noteq> Threw e)"
  by (simp add: provision_def exampleEnv_def hubProject_def exampleHub_def exampleDevice_def
        itemLabel_def toString.simps)

subsection \<open>provision: login and resource group\<close>

lemma provisionItemList_calls:
  "provisionCalls (snd (provisionItemList env cs)) = []"
  by (induction cs) (auto split: prod.splits option.splits)

lemma provisionCalls_append:
  "provisionCalls (xs @ ys) = provisionCalls xs @ provisionCalls ys"
  by (induction xs rule: provisionCalls.induct) auto

lemma provision_calls_after_login:
  assumes "E_provision c r \<in> set (snd (provision env s))"
  shows "truthy (getResourceGroup env) \<and> truthy (subscriptionId env) \<and>
      (\<exists>pre post b. snd (provision env s) =
         pre @ [E_checkAzureLogin (Returned b), E_AzureUtility_init,
                E_getResourceGroup (getResourceGroup env)] @ post \<and>
         provisionCalls pre = [])"
proof -
  obtain items evs where il: "provisionItemList env (componentList s) = (items, evs)"
    by (cases "provisionItemList env (componentList s)")
  have calls: "provisionCalls evs = []"
    using provisionItemList_calls [of env "componentList s"] il by simp
  have noev: "E_provision c r \<notin> set evs"
    using provisionItemList_events [of env "componentList s"] il by auto
  show ?thesis
  proof (cases "truthy (configGet env DevicePath)")
    case False
    with assms show ?thesis by (simp add: provision_def)
  next
    case dp: True
    show ?thesis
    proof (cases items)
      case None
      with il dp assms noev show ?thesis by (simp add: provision_def)
    next
      case (Some itemList)
      show ?thesis
      proof (cases "length itemList = 0")
        case True
        with il dp Some assms noev show ?thesis by (simp add: provision_def)
      next
        case False
        show ?thesis
        proof (cases "checkAzureLogin env")
          case (Threw e)
          with il dp Some False assms noev show ?thesis by (simp add: provision_def)
        next
          case (Returned b)
          show ?thesis
          proof (cases "truthy (getResourceGroup env) \<and> truthy (subscriptionId env)")
            case False
            with il dp Some \<open>length itemList \<noteq> 0\<close> Returned assms noev show ?thesis
              by (auto simp: provision_def Let_def)
          next
            case True
            have "snd (provision env s) =
                    evs @ [E_checkAzureLogin (Returned b), E_AzureUtility_init,
                           E_getResourceGroup (getResourceGroup env)]
                      @ snd (provision_loop env itemList (componentList s))"
              using il dp Some False Returned True
              by (simp add: provision_def Let_def split_beta)
            with calls True show ?thesis by blast
          qed
        qed
      qed
    qed
  qed
qed

lemma provision_without_group:
  assumes "truthy (configGet env DevicePath)"
    and "fst (provisionItemList env (componentList s)) = Some items" and "items \<noteq> []"
    and "checkAzureLogin env = Returned b"
    and "\<not> (truthy (getResourceGroup env) \<and> truthy (subscriptionId env))"
  shows "fst (provision env s) = Returned False \<and> provisionCalls (snd (provision env s)) = []"
proof -
  obtain evs where il: "provisionItemList env (componentList s) = (Some items, evs)"
    using assms(2) by (cases "provisionItemList env (componentList s)") auto
  have calls: "provisionCalls evs = []"
    using provisionItemList_calls [of env "componentList s"] il by simp
  from assms il have "provision env s =
      (Returned False, evs @ [E_checkAzureLogin (Returned b), E_AzureUtility_init,
                              E_getResourceGroup (getResourceGroup env)])"
    by (auto simp: provision_def Let_def)
  with calls show ?thesis by (simp add: provisionCalls_append)
qed

lemma provision_login_throws:
  assumes "truthy (configGet env DevicePath)"
    and "fst (provisionItemList env (componentList s)) = Some items" and "items \<noteq> []"
    and "checkAzureLogin env = Threw e"
  shows "fst (provision env s) = Threw e \<and> provisionCalls (snd (provision env s)) = []"
proof -
  obtain evs where il: "provisionItemList env (componentList s) = (Some items, evs)"
    using assms(2) by (cases "provisionItemList env (componentList s)") auto
  have calls: "provisionCalls evs = []"
    using provisionItemList_calls [of env "componentList s"] il by simp
  from assms il have "provision env s = (Threw e, evs @ [E_checkAzureLogin (Threw e)])"
    by (auto simp: provision_def Let_def)
  with calls show ?thesis by (simp add: provisionCalls_append)
qed

text \<open>
  What the class does assure about login and resource group. Every \<open>provision()\<close>
  of a component is preceded, in this order, by the login check (which returned,
  whatever its boolean), the initialisation of the Azure utility and the resolution
  of the resource group, and it happens only when a resource group and a subscription
  id were found. When the device path is set, every provisionable component passes its
  prerequisites and there is at least one: a missing resource group or subscription id
  makes \<open>provision\<close> return false, and a login check that throws propagates its
  error; in both cases no component's \<open>provision()\<close> runs.
\<close>

lemma provision_login_and_group:
  "(\<forall>c r. E_provision c r \<in> set (snd (provision env s)) \<longrightarrow>
      truthy (getResourceGroup env) \<and> truthy (subscriptionId env) \<and>
      (\<exists>pre post b. snd (provision env s) =
         pre @ [E_checkAzureLogin (Returned b), E_AzureUtility_init,
                E_getResourceGroup (getResourceGroup env)] @ post \<and>
         provisionCalls pre = [])) \<and>
   (truthy (configGet env DevicePath) \<and>
    fst (provisionItemList env (componentList s)) = Some items \<and> items \<noteq> [] \<longrightarrow>
      (\<forall>b. checkAzureLogin env = Returned b \<and>
           \<not> (truthy (getResourceGroup env) \<and> truthy (subscriptionId env)) \<longrightarrow>
           fst (provision env s) = Returned False \<and>
           provisionCalls (snd (provision env s)) = []) \<and>
      (\<forall>e. checkAzureLogin env = Threw e \<longrightarrow>
           fst (provision env s) = Threw e \<and>
           provisionCalls (snd (provision env s)) = []))"
  using provision_calls_after_login [of _ _ env s]
    provision_without_group [of env s items] provision_login_throws [of env s items]
  by blast

text \<open>
  Instances on the project of one device and one hub: with every collaborator
  favourable the hub is provisioned after login and resolution; without a resource
  group the call returns false; with a login check that throws, the error propagates.
  In the last two no \<open>provision()\<close> runs.
\<close>

lemma provision_login_and_group_instances:
  "E_provision exampleHub (Returned True) \<in> set (snd (provision exampleEnv hubProject)) \<and>
   snd (provision exampleEnv hubProject) =
     [E_checkPrerequisites exampleHub True] @
     [E_checkAzureLogin (Returned True), E_AzureUtility_init,
      E_getResourceGroup (Some ''demo-group'')] @
     [E_showQuickPick ''>> 1. IoT Hub'' True, E_provision exampleHub (Returned True)] \<and>
   truthy (configGet (exampleEnv\<lparr>getResourceGroup := None\<rparr>) DevicePath) \<and>
   fst (provisionItemList (exampleEnv\<lparr>getResourceGroup := None\<rparr>) (componentList hubProject))
     = Some [''IoT Hub''] \<and>
   checkAzureLogin (exampleEnv\<lparr>getResourceGroup := None\<rparr>) = Returned True \<and>
   \<not> truthy (getResourceGroup (exampleEnv\<lparr>getResourceGroup := None\<rparr>)) \<and>
   fst (provision (exampleEnv\<lparr>getResourceGroup := None\<rparr>) hubProject) = Returned False \<and>
   provisionCalls (snd (provision (exampleEnv\<lparr>getResourceGroup := None\<rparr>) hubProject)) = [] \<and>
   checkAzureLogin (exampleEnv\<lparr>checkAzureLogin := Threw (External ''no account'')\<rparr>)
     = Threw (External ''no account'') \<and>
   fst (provision (exampleEnv\<lparr>checkAzureLogin := Threw (External ''no account'')\<rparr>) hubProject)
     = Threw (External ''no account'') \<and>
   provisionCalls
     (snd (provision (exampleEnv\<lparr>checkAzureLogin := Threw (External ''no account'')\<rparr>) hubProject))
     = []"
proof -
  have a: "provision exampleEnv hubProject =
            (Returned True,
             [E_checkPrerequisites exampleHub True, E_checkAzureLogin (Returned True),
              E_AzureUtility_init, E_getResourceGroup (Some ''demo-group''),
              E_showQuickPick ''>> 1. IoT Hub'' True, E_provision exampleHub (Returned True)])"
    by (simp add: provision_def exampleEnv_def hubProject_def exampleHub_def exampleDevice_def
          itemLabel_def toString.simps)
  have b: "provisionItemList (exampleEnv\<lparr>getResourceGroup := None\<rparr>) (componentList hubProject) =
            (Some [''IoT Hub''], [E_checkPrerequisites exampleHub True])"
    by (simp add: exampleEnv_def hubProject_def exampleHub_def exampleDevice_def)
  have c: "provisionItemList (exampleEnv\<lparr>checkAzureLogin := Threw (External ''no account'')\<rparr>)
             (componentList hubProject) =
            (Some [''IoT Hub''], [E_checkPrerequisites exampleHub True])"
    by (simp add: exampleEnv_def hubProject_def exampleHub_def exampleDevice_def)
  have d: "truthy (configGet exampleEnv DevicePath)" "getResourceGroup exampleEnv = Some ''demo-group''"
    "checkAzureLogin exampleEnv = Returned True"
    by (simp_all add: exampleEnv_def)
  from provision_login_and_group [of exampleEnv hubProject "[''IoT Hub'']"]
       provision_login_and_group
         [of "exampleEnv\<lparr>getResourceGroup := None\<rparr>" hubProject "[''IoT Hub'']"]
       provision_login_and_group
         [of "exampleEnv\<lparr>checkAzureLogin := Threw (External ''no account'')\<rparr>" hubProject
             "[''IoT Hub'']"]
  show ?thesis unfolding a b c using d by auto
qed

text \<open>The login check is called whenever the device path is set and every
  provisionable component passes its prerequisites, with at least one of them; and
  the boolean it returns is not consulted: the result of \<open>provision\<close> and the
  components it provisions are the same for a login check that returns true and one
  that returns false.\<close>

lemma provisionItemList_login [simp]:
  "provisionItemList (env\<lparr>checkAzureLogin := x\<rparr>) cs = provisionItemList env cs"
  by (induction cs) (auto split: prod.splits option.splits)

lemma provision_loop_login [simp]:
  "provision_loop (env\<lparr>checkAzureLogin := x\<rparr>) items cs = provision_loop env items cs"
  by (induction cs) (auto simp: Let_def split: prod.splits outcome.splits)

lemma provision_ignores_login_result:
  "fst (provision (env\<lparr>checkAzureLogin := Returned b\<rparr>) s) =
     fst (provision (env\<lparr>checkAzureLogin := Returned b'\<rparr>) s) \<and>
   provisionCalls (snd (provision (env\<lparr>checkAzureLogin := Returned b\<rparr>) s)) =
     provisionCalls (snd (provision (env\<lparr>checkAzureLogin := Returned b'\<rparr>) s))"
  by (simp add: provision_def Let_def provisionCalls_append split: prod.splits option.splits)

lemma provision_calls_login:
  assumes "truthy (configGet env DevicePath)"
    and "fst (provisionItemList env (componentList s)) = Some items" and "items \<noteq> []"
  shows "E_checkAzureLogin (checkAzureLogin env) \<in> set (snd (provision env s))"
proof -
  obtain evs where il: "provisionItemList env (componentList s) = (Some items, evs)"
    using assms(2) by (cases "provisionItemList env (componentList s)") auto
  with assms show ?thesis
    by (cases "checkAzureLogin env") (auto simp: provision_def Let_def split: prod.splits)
qed

text \<open>
  Claim C7 at the project of one device and one hub, with a login check that returns
  false while the resource group and the subscription id are found. The claim has
  \<open>provision\<close> return false without any component's \<open>provision()\<close>; the class
  goes on to provision the hub and returns true.
\<close>

theorem provision_proceeds_after_failed_login:
  "checkAzureLogin (exampleEnv\<lparr>checkAzureLogin := Returned False\<rparr>) = Returned False \<and>
   provision (exampleEnv\<lparr>checkAzureLogin := Returned False\<rparr>) hubProject =
     (Returned True,
      [E_checkPrerequisites exampleHub True, E_checkAzureLogin (Returned False),
       E_AzureUtility_init, E_getResourceGroup (Some ''demo-group''),
       E_showQuickPick ''>> 1. IoT Hub'' True, E_provision exampleHub (Returned True)]) \<and>
   provisionCalls (snd (provision (exampleEnv\<lparr>checkAzureLogin := Returned False\<rparr>) hubProject))
     = [exampleHub]"
  by (simp add: provision_def exampleEnv_def hubProject_def exampleHub_def exampleDevice_def
        itemLabel_def toString.simps)

subsection \<open>A project without a device path\<close>

text \<open>
  Claim C10. When the \<open>devicePath\<close> setting is absent (or empty), \<open>provision\<close> throws
  "Cannot run IoT Device Workbench command in a non-IoTWorkbench project ..." before
  any capability test, prerequisite check or component action (no collaborator is
  called), whereas \<open>load\<close> returns false and leaves the project as it was.
\<close>

theorem provision_throws_without_device_path:
  "\<not> truthy (configGet env DevicePath) \<Longrightarrow>
     provision env s = (Threw NotIoTWorkbenchProject, []) \<and>
     load env initLoad s = ((Returned False, []), s)"
  by (simp add: provision_def load_def)

text \<open>An instance of C10: the example project with an empty configuration.\<close>

theorem provision_throws_without_device_path_witness:
  "configGet (exampleEnv\<lparr>configGet := Map.empty\<rparr>) DevicePath = None \<and>
   \<not> truthy (configGet (exampleEnv\<lparr>configGet := Map.empty\<rparr>) DevicePath) \<and>
   provision (exampleEnv\<lparr>configGet := Map.empty\<rparr>) hubProject
     = (Threw NotIoTWorkbenchProject, []) \<and>
   load (exampleEnv\<lparr>configGet := Map.empty\<rparr>) True hubProject
     = ((Returned False, []), hubProject)"
proof -
  have h: "\<not> truthy (configGet (exampleEnv\<lparr>configGet := Map.empty\<rparr>) DevicePath)"
    by simp
  from provision_throws_without_device_path
         [OF h, of hubProject True]
  show ?thesis by simp
qed

subsection \<open>load\<close>

lemma prepend_result [simp]:
  "fst (fst (prepend evs x)) = fst (fst x)" "snd (prepend evs x) = snd x"
  "snd (fst (prepend evs x)) = evs @ snd (fst x)"
  by (cases x; cases "fst x"; simp)+

lemma prepend_prepend [simp]: "prepend a (prepend b x) = prepend (a @ b) x"
  by (cases x; cases "fst x"; simp)

lemma prepend_eq: "prepend evs x = ((fst (fst x), evs @ snd (fst x)), snd x)"
  by (cases x; cases "fst x"; simp)

lemma resolveDependencies_found:
  "list_all (\<lambda>d. dependent_id d \<in> dom components) deps \<Longrightarrow>
     \<exists>ds. resolveDependencies components deps = Inr ds"
  by (induction deps) (auto split: option.splits sum.splits)

lemma resolveDependencies_missing:
  "d \<in> set deps \<Longrightarrow> dependent_id d \<notin> dom components \<Longrightarrow>
     resolveDependencies components deps = Inl CannotFindComponent"
  by (induction deps) (auto split: option.splits sum.splits)

lemma list_all_mono_dom:
  "list_all (\<lambda>d. dependent_id d \<in> set seen) deps \<Longrightarrow> set seen \<subseteq> dom components \<Longrightarrow>
     list_all (\<lambda>d. dependent_id d \<in> dom components) deps"
  by (induction deps) auto

lemma resolvable_passes:
  "list_all (passable env) rs \<Longrightarrow> resolvable seen rs \<Longrightarrow> loopPasses env seen rs"
  by (induction rs arbitrary: seen) auto

lemma load_loop_prefix:
  assumes "loopPasses env seen pre" and "set seen \<subseteq> dom components"
  shows "\<exists>evs appended components'.
           (\<forall>rest. load_loop env (pre @ rest) components s =
              prepend evs (load_loop env rest components'
                 (s\<lparr>componentList := componentList s @ appended\<rparr>))) \<and>
           dom components' = dom components \<union> set (map config_id pre) \<and>
           map entry appended = recordEntries env pre"
  using assms
proof (induction pre arbitrary: seen components s)
  case Nil
  have "\<forall>rest. load_loop env ([] @ rest) components s =
          prepend [] (load_loop env rest components (s\<lparr>componentList := componentList s @ []\<rparr>))"
    by (simp add: prepend_eq)
  then show ?case by (metis Un_empty_right list.simps(8) recordEntries.simps(1) set_empty2)
next
  case (Cons r pre)
  let ?looksUp = "config_type r = ''StreamAnalyticsJob'' \<or> config_type r = ''CosmosDB''"
  have pass: "passable env r" and res: "loopPasses env (config_id r # seen) pre"
    using Cons.prems(1) by auto
  have "\<exists>ds. ?looksUp \<longrightarrow> resolveDependencies components (config_dependencies r) = Inr ds"
  proof (cases ?looksUp)
    case True
    with Cons.prems have "list_all (\<lambda>d. dependent_id d \<in> dom components) (config_dependencies r)"
      using list_all_mono_dom by auto
    from resolveDependencies_found [OF this] show ?thesis by blast
  next
    case False
    then show ?thesis by simp
  qed
  then obtain ds where
    ds: "?looksUp \<longrightarrow> resolveDependencies components (config_dependencies r) = Inr ds"
    by blast
  define c where "c = (if config_type r = ''IoTHub'' then loaded r (newComponent env IoTHub [])
     else if config_type r = ''AzureFunctions'' then loaded r (newComponent env AzureFunctions [])
     else if config_type r = ''StreamAnalyticsJob'' then loaded r (newComponent env StreamAnalyticsJob ds)
     else loaded r (newComponent env CosmosDB ds))"
  define pushed where "pushed = (if config_type r = ''IoTHub'' then [c, newComponent env IoTHubDevice []] else [c])"
  have cid: "componentId c = config_id r"
    by (simp add: c_def loaded_def)
  have step: "load_loop env (r # rest) components s =
          prepend [E_load c] (load_loop env rest (components(config_id r \<mapsto> c))
             (s\<lparr>componentList := componentList s @ pushed\<rparr>))" for rest
    using pass ds cid
    by (auto simp: passable_def supportedType_def c_def pushed_def Let_def push_def loaded_def)
  have sub: "set (config_id r # seen) \<subseteq> dom (components(config_id r \<mapsto> c))"
    using Cons.prems(2) by auto
  have "\<exists>evs appended components'.
          (\<forall>rest. load_loop env (pre @ rest) (components(config_id r \<mapsto> c))
              (s\<lparr>componentList := componentList s @ pushed\<rparr>) =
            prepend evs (load_loop env rest components'
              (s\<lparr>componentList := componentList s @ pushed @ appended\<rparr>))) \<and>
          dom components' = dom (components(config_id r \<mapsto> c)) \<union> set (map config_id pre) \<and>
          map entry appended = recordEntries env pre"
    using Cons.IH [where seen = "config_id r # seen"
        and components = "components(config_id r \<mapsto> c)"
        and s = "s\<lparr>componentList := componentList s @ pushed\<rparr>", OF res sub]
    by (simp del: fun_upd_apply)
  then obtain evs appended components' where
    ih: "\<And>rest. load_loop env (pre @ rest) (components(config_id r \<mapsto> c))
            (s\<lparr>componentList := componentList s @ pushed\<rparr>) =
          prepend evs (load_loop env rest components'
             (s\<lparr>componentList := componentList s @ pushed @ appended\<rparr>))"
    and dom': "dom components' = dom (components(config_id r \<mapsto> c)) \<union> set (map config_id pre)"
    and ent: "map entry appended = recordEntries env pre"
    by blast
  have "\<forall>rest. load_loop env ((r # pre) @ rest) components s =
          prepend ([E_load c] @ evs) (load_loop env rest components'
             (s\<lparr>componentList := componentList s @ (pushed @ appended)\<rparr>))"
    using step ih by simp
  moreover have "dom components' = dom components \<union> set (map config_id (r # pre))"
    using dom' by auto
  moreover have "map entry (pushed @ appended) = recordEntries env (r # pre)"
    using ent pass
    by (auto simp: pushed_def entry_def c_def loaded_def newComponent_def classOfType_def
          passable_def supportedType_def)
  ultimately show ?case by blast
qed

lemma load_reaches:
  assumes "reachesComponents env s"
  shows "load env initLoad s =
           prepend ((if initLoad then [E_sendEvent projectLoadEvent] else [])
                      @ map E_load (deviceComponents env))
             (load_components env
                ((createIfNotExists s)\<lparr>componentList := componentList s @ deviceComponents env\<rparr>))"
proof -
  from assms obtain boardId json projectType folder where
    h: "workspaceFolders env = Some folder" "truthy (configGet env DevicePath)"
       "iotworkbenchprojectFile (fileSystem s)" "configGet env BoardId = Some boardId"
       "boardId \<noteq> []" "projectConfigFile (fileSystem s) = Some json"
       "json ProjectType = Some projectType" "projectType \<noteq> StringValue []"
    by (auto simp: reachesComponents_def split: option.splits if_splits
          elim!: truthy.elims)
  show ?thesis
  proof (cases "deviceClass env boardId")
    case None
    with h show ?thesis
      by (simp add: load_def deviceComponents_def Let_def createIfNotExists_def)
  next
    case (Some c)
    with h show ?thesis
      by (simp add: load_def deviceComponents_def Let_def createIfNotExists_def push_def)
  qed
qed

lemma recordEntries_length:
  "length (recordEntries env rs) =
     length rs + length (filter (\<lambda>r. config_type r = ''IoTHub'') rs)"
  by (induction rs) auto

lemma recordEntries_filter:
  "list_all (passable env) rs \<Longrightarrow>
     filter (\<lambda>e. fst e \<noteq> IoTHubDevice) (recordEntries env rs) =
       map (\<lambda>r. (classOfType (config_type r), config_id r)) rs"
  by (induction rs) (auto simp: passable_def supportedType_def classOfType_def)

lemma entry_filter:
  "map entry (filter (\<lambda>c. cls c \<noteq> IoTHubDevice) cs) =
     filter (\<lambda>e. fst e \<noteq> IoTHubDevice) (map entry cs)"
  by (induction cs) (auto simp: entry_def)

lemma load_records:
  assumes "reachesComponents env s" and "getSortedComponents env = Some (pre @ rest)"
    and "pre @ rest \<noteq> []"
    and "loopPasses env [] pre"
  shows "\<exists>evs appended components'.
           load env initLoad s =
             prepend evs (load_loop env rest components'
               ((createIfNotExists s)
                  \<lparr>componentList := componentList s @ deviceComponents env @ appended\<rparr>)) \<and>
           dom components' = set (map config_id pre) \<and>
           map entry appended = recordEntries env pre"
proof -
  let ?s1 = "(createIfNotExists s)\<lparr>componentList := componentList s @ deviceComponents env\<rparr>"
  from load_loop_prefix [OF assms(4), of Map.empty ?s1]
  obtain evs appended components' where
    l: "\<And>rest. load_loop env (pre @ rest) Map.empty ?s1 =
          prepend evs (load_loop env rest components'
             (?s1\<lparr>componentList := componentList ?s1 @ appended\<rparr>))"
    and d: "dom components' = dom (Map.empty :: string \<rightharpoonup> Component) \<union> set (map config_id pre)"
    and e: "map entry appended = recordEntries env pre"
    by auto
  have "load_components env ?s1 = load_loop env (pre @ rest) Map.empty ?s1"
    using assms(2,3) by (auto simp: load_components_def)
  with load_reaches [OF assms(1), of initLoad] l [of rest]
  have "load env initLoad s =
          prepend (((if initLoad then [E_sendEvent projectLoadEvent] else [])
                      @ map E_load (deviceComponents env)) @ evs)
            (load_loop env rest components'
               ((createIfNotExists s)
                  \<lparr>componentList := componentList s @ deviceComponents env @ appended\<rparr>))"
    by (simp add: createIfNotExists_def)
  with d e show ?thesis by auto
qed

text \<open>
  Claim C3, as the class has it. When \<open>load\<close> reaches a non-empty list of component
  records whose types are all supported (with the function path set if an
  \<open>AzureFunctions\<close> record is among them) and whose dependency ids all resolve against
  earlier records, it returns true and appends to the registry, behind the device, the
  components of the records in record order: one component per record, of the record's
  class and id, and an \<open>IoTHubDevice\<close> behind every \<open>IoTHub\<close>. Without the
  \<open>IoTHubDevice\<close> entries the appended components match the records one to one; their
  number is the number of records plus the number of \<open>IoTHub\<close> records. The ids of
  the records are plain ids (\<open>plainIds\<close>).
\<close>

theorem load_registry_follows_records:
  assumes "reachesComponents env s" and "getSortedComponents env = Some records"
    and "records \<noteq> []" and "list_all (passable env) records" and "resolvable [] records"
    and "plainIds records"
  shows "fst (fst (load env initLoad s)) = Returned True \<and>
         (\<exists>appended.
            componentList (snd (load env initLoad s)) =
              componentList s @ deviceComponents env @ appended \<and>
            map entry appended = recordEntries env records \<and>
            map entry (filter (\<lambda>c. cls c \<noteq> IoTHubDevice) appended) =
              map (\<lambda>r. (classOfType (config_type r), config_id r)) records \<and>
            length appended =
              length records + length (filter (\<lambda>r. config_type r = ''IoTHub'') records))"
proof -
  from load_records [of env s records "[]" initLoad] assms(1-3) resolvable_passes [OF assms(4,5)]
  obtain evs appended components' where
    l: "load env initLoad s =
          prepend evs (load_loop env [] components'
            ((createIfNotExists s)
               \<lparr>componentList := componentList s @ deviceComponents env @ appended\<rparr>))"
    and e: "map entry appended = recordEntries env records"
    by auto
  have "length appended = length (recordEntries env records)"
    using e by (metis length_map)
  then have len: "length appended =
      length records + length (filter (\<lambda>r. config_type r = ''IoTHub'') records)"
    by (simp add: recordEntries_length)
  have fil: "map entry (filter (\<lambda>c. cls c \<noteq> IoTHubDevice) appended) =
      map (\<lambda>r. (classOfType (config_type r), config_id r)) records"
    using e assms(4) by (simp add: entry_filter recordEntries_filter)
  from l have "fst (fst (load env initLoad s)) = Returned True"
    "componentList (snd (load env initLoad s)) =
       componentList s @ deviceComponents env @ appended"
    by simp_all
  with e len fil show ?thesis by blast
qed

text \<open>
  Claim C4, as the class has it. When the loop of \<open>load\<close> reaches a record of type
  \<open>StreamAnalyticsJob\<close> or \<open>CosmosDB\<close> one of whose dependency ids is not the id of an
  earlier record, \<open>load\<close> throws "Cannot find component with id ...", whatever
  records follow: the ids are looked up in the map of the components loaded from the
  records before it. The loop reaches the record when it passes the records before it
  (\<open>loopPasses\<close>); nothing is said of what their own dependency lists hold where
  the loop does not read them. The registry then holds the components of the records
  before it and nothing of the record or of those behind it. The ids of the records
  up to this one are plain ids (\<open>plainIds\<close>).
\<close>

theorem load_unresolved_dependency:
  assumes "reachesComponents env s" and "getSortedComponents env = Some (pre @ r # post)"
    and "loopPasses env [] pre"
    and "config_type r = ''StreamAnalyticsJob'' \<or> config_type r = ''CosmosDB''"
    and "d \<in> set (config_dependencies r)"
    and "dependent_id d \<notin> set (map config_id pre)"
    and "plainIds (pre @ [r])"
  shows "fst (fst (load env initLoad s)) = Threw CannotFindComponent \<and>
         (\<exists>appended.
            componentList (snd (load env initLoad s)) =
              componentList s @ deviceComponents env @ appended \<and>
            map entry appended = recordEntries env pre)"
proof -
  from load_records [of env s pre "r # post" initLoad] assms(1-3)
  obtain evs appended components' where
    l: "load env initLoad s =
          prepend evs (load_loop env (r # post) components'
            ((createIfNotExists s)
               \<lparr>componentList := componentList s @ deviceComponents env @ appended\<rparr>))"
    and d: "dom components' = set (map config_id pre)"
    and e: "map entry appended = recordEntries env pre"
    by auto
  have "resolveDependencies components' (config_dependencies r) = Inl CannotFindComponent"
    using resolveDependencies_missing [OF assms(5), of components'] assms(6) d by simp
  with assms(4) l have "fst (fst (load env initLoad s)) = Threw CannotFindComponent"
    "componentList (snd (load env initLoad s)) =
       componentList s @ deviceComponents env @ appended"
    by auto
  with e show ?thesis by blast
qed

text \<open>The condition is the right one: when the loop does not pass the records of a
  list, it leaves within the list, with a result other than true that does not depend
  on the records behind the list.\<close>

lemma load_loop_leaves:
  assumes "\<not> loopPasses env seen pre" and "dom components = set seen"
  shows "fst (fst (load_loop env (pre @ rest) components s)) \<noteq> Returned True \<and>
         load_loop env (pre @ rest) components s = load_loop env pre components s"
  using assms
proof (induction pre arbitrary: seen components s)
  case Nil
  then show ?case by simp
next
  case (Cons r pre)
  let ?looksUp = "config_type r = ''StreamAnalyticsJob'' \<or> config_type r = ''CosmosDB''"
  show ?case
  proof (cases "passable env r \<and>
      (if ?looksUp then list_all (\<lambda>d. dependent_id d \<in> set seen) (config_dependencies r)
       else True)")
    case False
    then consider (unsupported) "\<not> supportedType (config_type r)"
      | (nopath) "config_type r = ''AzureFunctions''" "\<not> truthy (configGet env FunctionPath)"
      | (missing) "?looksUp"
          "\<not> list_all (\<lambda>d. dependent_id d \<in> set seen) (config_dependencies r)"
      by (auto simp: passable_def split: if_splits)
    then show ?thesis
    proof cases
      case unsupported
      then show ?thesis by (simp add: supportedType_def)
    next
      case nopath
      then show ?thesis by simp
    next
      case missing
      then obtain d where "d \<in> set (config_dependencies r)" "dependent_id d \<notin> dom components"
        using Cons.prems(2) by (auto simp: list_all_iff)
      from resolveDependencies_missing [OF this]
      show ?thesis using missing(1) by auto
    qed
  next
    case True
    then have rest: "\<not> loopPasses env (config_id r # seen) pre"
      using Cons.prems(1) by simp
    have look: "?looksUp \<longrightarrow>
        (\<exists>ds. resolveDependencies components (config_dependencies r) = Inr ds)"
      using True Cons.prems(2) resolveDependencies_found [of components "config_dependencies r"]
      by (auto split: if_splits)
    have ih: "fst (fst (load_loop env (pre @ rest) (components(config_id r \<mapsto> c)) s')) \<noteq> Returned True \<and>
         load_loop env (pre @ rest) (components(config_id r \<mapsto> c)) s' =
         load_loop env pre (components(config_id r \<mapsto> c)) s'" for c s'
    proof -
      have "dom (components(config_id r \<mapsto> c)) = set (config_id r # seen)"
        using Cons.prems(2) by simp
      from Cons.IH [OF rest this, of s'] show ?thesis .
    qed
    have ih2: "load_loop env (pre @ rest) (components(config_id r \<mapsto> c)) s' =
         load_loop env pre (components(config_id r \<mapsto> c)) s'" for c s'
      using ih [of c s'] by blast
    have ih1: "fst (fst (load_loop env pre (components(config_id r \<mapsto> c)) s')) \<noteq> Returned True"
      for c s'
      using ih [of c s'] by metis
    from True look show ?thesis
      by (auto simp: ih1 ih2 passable_def supportedType_def Let_def loaded_def newComponent_def
            simp del: fun_upd_apply)
  qed
qed

lemma load_legacy_functions:
  assumes "truthy (configGet env FunctionPath)"
  shows "load_legacy env s =
    ((Returned True,
      [E_updateConfigSettings (newComponent env IoTHub []), E_load (newComponent env IoTHub []),
       E_updateConfigSettings (newComponent env AzureFunctions [(newComponent env IoTHub [], Input)]),
       E_load (newComponent env AzureFunctions [(newComponent env IoTHub [], Input)])]
      @ checkAll env (componentList s @
          [newComponent env IoTHub [], newComponent env IoTHubDevice [],
           newComponent env AzureFunctions [(newComponent env IoTHub [], Input)]])),
     s\<lparr>componentList := componentList s @
          [newComponent env IoTHub [], newComponent env IoTHubDevice [],
           newComponent env AzureFunctions [(newComponent env IoTHub [], Input)]]\<rparr>)"
  using assms by (simp add: load_legacy_def Let_def push_def)

text \<open>
  Claim C6. In a project that passes the guards of \<open>load\<close>, has no component records
  (none returned, or an empty list) and has the function path set, \<open>load\<close> appends an
  \<open>IoTHub\<close>, an \<open>IoTHubDevice\<close> and an \<open>AzureFunctions\<close> that depends on the hub as
  \<open>Input\<close>, in this order, then calls \<open>checkPrerequisites()\<close> once on every
  component of the registry, in order and whatever each call answers, and returns
  true.
\<close>

theorem load_legacy_project:
  assumes "reachesComponents env s"
    and "getSortedComponents env = None \<or> getSortedComponents env = Some []"
    and "truthy (configGet env FunctionPath)"
  shows "fst (fst (load env initLoad s)) = Returned True \<and>
         componentList (snd (load env initLoad s)) =
           componentList s @ deviceComponents env @
           [newComponent env IoTHub [], newComponent env IoTHubDevice [],
            newComponent env AzureFunctions [(newComponent env IoTHub [], Input)]] \<and>
         snd (fst (load env initLoad s)) =
           (if initLoad then [E_sendEvent projectLoadEvent] else []) @
           map E_load (deviceComponents env) @
           [E_updateConfigSettings (newComponent env IoTHub []),
            E_load (newComponent env IoTHub []),
            E_updateConfigSettings
              (newComponent env AzureFunctions [(newComponent env IoTHub [], Input)]),
            E_load (newComponent env AzureFunctions [(newComponent env IoTHub [], Input)])] @
           map (\<lambda>item. E_checkPrerequisites item (checkPrerequisites env item))
             (componentList (snd (load env initLoad s)))"
proof -
  let ?s1 = "(createIfNotExists s)\<lparr>componentList := componentList s @ deviceComponents env\<rparr>"
  have "load_components env ?s1 = load_legacy env ?s1"
    using assms(2) by (auto simp: load_components_def)
  with load_reaches [OF assms(1), of initLoad] load_legacy_functions [OF assms(3), of ?s1]
  show ?thesis by (simp add: createIfNotExists_def checkAll_def)
qed

lemma behind_result [simp]: "fst (behind vs p) = fst p" "snd (behind vs p) = vs @ snd p"
  by (cases p; simp)+

lemma load_loop_registry:
  assumes "dom components = set seen"
  shows "fst (fst (load_loop env rs components s)) =
           fst (recordsRegistry (truthy (configGet env FunctionPath)) seen rs) \<and>
         (\<exists>appended.
            componentList (snd (load_loop env rs components s)) = componentList s @ appended \<and>
            map typeAndRecordId appended =
              snd (recordsRegistry (truthy (configGet env FunctionPath)) seen rs))"
  using assms
proof (induction rs arbitrary: seen components s)
  case Nil
  show ?case by simp
next
  case (Cons r rs)
  let ?fp = "truthy (configGet env FunctionPath)"
  have step: "fst (fst (load_loop env (r # rs) components s)) =
           fst (recordsRegistry ?fp seen (r # rs)) \<and>
         (\<exists>appended.
            componentList (snd (load_loop env (r # rs) components s)) = componentList s @ appended \<and>
            map typeAndRecordId appended = snd (recordsRegistry ?fp seen (r # rs)))"
    if run: "load_loop env (r # rs) components s =
          prepend [E_load c] (load_loop env rs (components(config_id r \<mapsto> c))
             (s\<lparr>componentList := componentList s @ pushed\<rparr>))"
      and reg: "recordsRegistry ?fp seen (r # rs) =
          behind (map typeAndRecordId pushed) (recordsRegistry ?fp (config_id r # seen) rs)"
    for c pushed
  proof -
    have "dom (components(config_id r \<mapsto> c)) = set (config_id r # seen)"
      using Cons.prems by simp
    from Cons.IH [OF this, of "s\<lparr>componentList := componentList s @ pushed\<rparr>"]
    obtain appended where
      r: "fst (fst (load_loop env rs (components(config_id r \<mapsto> c))
             (s\<lparr>componentList := componentList s @ pushed\<rparr>))) =
          fst (recordsRegistry ?fp (config_id r # seen) rs)"
      and a: "componentList (snd (load_loop env rs (components(config_id r \<mapsto> c))
             (s\<lparr>componentList := componentList s @ pushed\<rparr>))) =
          (componentList s @ pushed) @ appended"
      and v: "map typeAndRecordId appended = snd (recordsRegistry ?fp (config_id r # seen) rs)"
      by (auto simp del: fun_upd_apply)
    have "componentList (snd (load_loop env (r # rs) components s)) =
            componentList s @ (pushed @ appended)"
      using a by (simp only: run prepend_result append_assoc)
    moreover have "map typeAndRecordId (pushed @ appended) =
        snd (recordsRegistry ?fp seen (r # rs))"
      using v by (simp only: reg behind_result map_append)
    moreover have "fst (fst (load_loop env (r # rs) components s)) =
           fst (recordsRegistry ?fp seen (r # rs))"
      using r by (simp only: run reg prepend_result behind_result)
    ultimately show ?thesis by blast
  qed
  consider (hub) "config_type r = ''IoTHub''"
    | (functionApp) "config_type r = ''AzureFunctions''"
    | (looksUp) "config_type r = ''StreamAnalyticsJob'' \<or> config_type r = ''CosmosDB''"
    | (other) "\<not> supportedType (config_type r)"
    by (auto simp: supportedType_def)
  then show ?case
  proof cases
    case hub
    show ?thesis
      by (rule step [of "loaded r (newComponent env IoTHub [])"
            "[loaded r (newComponent env IoTHub []), newComponent env IoTHubDevice []]"])
         (simp_all add: hub Let_def push_def loaded_def newComponent_def typeAndRecordId_def
            recordClass_def del: fun_upd_apply)
  next
    case functionApp
    show ?thesis
    proof (cases ?fp)
      case True
      show ?thesis
        by (rule step [of "loaded r (newComponent env AzureFunctions [])"
              "[loaded r (newComponent env AzureFunctions [])]"])
           (simp_all add: functionApp True Let_def push_def loaded_def newComponent_def
              typeAndRecordId_def recordClass_def del: fun_upd_apply)
    next
      case False
      then show ?thesis by (simp add: functionApp)
    qed
  next
    case looksUp
    show ?thesis
    proof (cases "list_all (\<lambda>d. dependent_id d \<in> set seen) (config_dependencies r)")
      case True
      then obtain ds where ds: "resolveDependencies components (config_dependencies r) = Inr ds"
        using resolveDependencies_found [of components "config_dependencies r"] Cons.prems
        by auto
      from looksUp show ?thesis
      proof
        assume t: "config_type r = ''StreamAnalyticsJob''"
        show ?thesis
          by (rule step [of "loaded r (newComponent env StreamAnalyticsJob ds)"
                "[loaded r (newComponent env StreamAnalyticsJob ds)]"])
             (simp_all add: t ds True Let_def push_def loaded_def newComponent_def
                typeAndRecordId_def recordClass_def classOfType_def del: fun_upd_apply)
      next
        assume t: "config_type r = ''CosmosDB''"
        show ?thesis
          by (rule step [of "loaded r (newComponent env CosmosDB ds)"
                "[loaded r (newComponent env CosmosDB ds)]"])
             (simp_all add: t ds True Let_def push_def loaded_def newComponent_def
                typeAndRecordId_def recordClass_def classOfType_def del: fun_upd_apply)
      qed
    next
      case False
      then obtain d where "d \<in> set (config_dependencies r)" "dependent_id d \<notin> dom components"
        using Cons.prems by (auto simp: list_all_iff)
      from resolveDependencies_missing [OF this] False looksUp
      show ?thesis by auto
    qed
  next
    case other
    then show ?thesis by (simp add: supportedType_def)
  qed
qed

lemma deviceComponents_registry:
  "map typeAndRecordId (deviceComponents env) = deviceRegistry env \<and>
   map cls (deviceComponents env) = map fst (deviceRegistry env)"
  by (auto simp: deviceComponents_def deviceRegistry_def typeAndRecordId_def recordClass_def
        newComponent_def deviceClass_def split: option.splits if_splits)

lemma typeAndRecordId_cls: "map fst (map typeAndRecordId cs) = map cls cs"
  by (simp add: typeAndRecordId_def)

lemma load_components_registry:
  "fst (fst (load_components env s)) =
     fst (if recordsOf env = [] then legacyRegistry (truthy (configGet env FunctionPath))
          else recordsRegistry (truthy (configGet env FunctionPath)) [] (recordsOf env)) \<and>
   (\<exists>appended.
      componentList (snd (load_components env s)) = componentList s @ appended \<and>
      map cls appended =
        map fst (snd (if recordsOf env = [] then legacyRegistry (truthy (configGet env FunctionPath))
          else recordsRegistry (truthy (configGet env FunctionPath)) [] (recordsOf env))) \<and>
      (if recordsOf env = [] then True
       else map typeAndRecordId appended =
          snd (recordsRegistry (truthy (configGet env FunctionPath)) [] (recordsOf env))))"
proof (cases "recordsOf env = []")
  case True
  then have "load_components env s = load_legacy env s"
    by (auto simp: load_components_def recordsOf_def split: option.splits)
  then show ?thesis
    using True
    by (simp add: load_legacy_def legacyRegistry_def Let_def push_def newComponent_def)
next
  case False
  then have l: "load_components env s = load_loop env (recordsOf env) Map.empty s"
    by (auto simp: load_components_def recordsOf_def split: option.splits)
  from load_loop_registry [of Map.empty "[]" env "recordsOf env" s]
  obtain appended where
    "fst (fst (load_loop env (recordsOf env) Map.empty s)) =
       fst (recordsRegistry (truthy (configGet env FunctionPath)) [] (recordsOf env))"
    "componentList (snd (load_loop env (recordsOf env) Map.empty s)) = componentList s @ appended"
    "map typeAndRecordId appended =
       snd (recordsRegistry (truthy (configGet env FunctionPath)) [] (recordsOf env))"
    by auto
  then show ?thesis
    using False l typeAndRecordId_cls [of appended] by auto
qed

lemma load_stops_early:
  assumes "\<not> reachesComponents env s"
  shows "fst (fst (load env initLoad s)) = Returned False \<and>
         componentList (snd (load env initLoad s)) = componentList s"
  using assms
  by (auto simp: load_def reachesComponents_def createIfNotExists_def Let_def
        split: option.splits if_splits elim!: truthy.elims)

lemma load_registry:
  "fst (fst (load env initLoad s)) = fst (descriptorRegistry env s) \<and>
   (\<exists>appended.
      componentList (snd (load env initLoad s)) = componentList s @ appended \<and>
      map cls appended = map fst (snd (descriptorRegistry env s)) \<and>
      (if recordsOf env = [] then True
       else map typeAndRecordId appended = snd (descriptorRegistry env s)))"
proof (cases "reachesComponents env s")
  case False
  from load_stops_early [OF False, of initLoad] False show ?thesis
    by (simp add: descriptorRegistry_def)
next
  case True
  let ?s1 = "(createIfNotExists s)\<lparr>componentList := componentList s @ deviceComponents env\<rparr>"
  let ?reg = "if recordsOf env = [] then legacyRegistry (truthy (configGet env FunctionPath))
          else recordsRegistry (truthy (configGet env FunctionPath)) [] (recordsOf env)"
  from load_components_registry [of env ?s1]
  obtain appended where
    r: "fst (fst (load_components env ?s1)) = fst ?reg"
    and a: "componentList (snd (load_components env ?s1)) = componentList ?s1 @ appended"
    and c: "map cls appended = map fst (snd ?reg)"
    and v: "if recordsOf env = [] then True
            else map typeAndRecordId appended =
              snd (recordsRegistry (truthy (configGet env FunctionPath)) [] (recordsOf env))"
    by blast
  have "fst (fst (load env initLoad s)) = fst (descriptorRegistry env s)"
    using r True by (simp add: load_reaches [OF True] descriptorRegistry_def)
  moreover have "componentList (snd (load env initLoad s)) =
      componentList s @ (deviceComponents env @ appended)"
    using a by (simp add: load_reaches [OF True] createIfNotExists_def)
  moreover have "map cls (deviceComponents env @ appended) =
      map fst (snd (descriptorRegistry env s))"
    using c True deviceComponents_registry [of env] by (simp add: descriptorRegistry_def)
  moreover have "if recordsOf env = [] then True
       else map typeAndRecordId (deviceComponents env @ appended) =
              snd (descriptorRegistry env s)"
    using v True deviceComponents_registry [of env]
    by (simp add: descriptorRegistry_def split: if_splits)
  ultimately show ?thesis by blast
qed

lemma sameDescriptor_registry:
  assumes "sameDescriptor env1 s1 env2 s2"
  shows "descriptorRegistry env2 s2 = descriptorRegistry env1 s1 \<and> recordsOf env2 = recordsOf env1"
proof -
  from assms have h: "workspaceFolders env1 = workspaceFolders env2"
    "configGet env1 = configGet env2" "getSortedComponents env1 = getSortedComponents env2"
    "boardIdOf env1 = boardIdOf env2"
    "iotworkbenchprojectFile (fileSystem s1) = iotworkbenchprojectFile (fileSystem s2)"
    "projectConfigFile (fileSystem s1) = projectConfigFile (fileSystem s2)"
    by (simp_all add: sameDescriptor_def)
  have "reachesComponents env2 s2 = reachesComponents env1 s1"
    using h by (simp add: reachesComponents_def)
  moreover have "deviceClass env2 = deviceClass env1"
    using h(4) by (simp add: deviceClass_def fun_eq_iff)
  then have "deviceRegistry env2 = deviceRegistry env1"
    using h(2) by (simp add: deviceRegistry_def split: option.splits)
  moreover have "recordsOf env2 = recordsOf env1"
    using h by (simp add: recordsOf_def)
  ultimately show ?thesis using h(2) by (simp add: descriptorRegistry_def)
qed

text \<open>For records the loop passes, \<open>recordsRegistry\<close> is the list of
  \<open>recordEntries\<close> without the ids of the \<open>IoTHubDevice\<close> entries, and the result is
  true.\<close>

lemma recordsRegistry_passes:
  "loopPasses env seen rs \<Longrightarrow>
     recordsRegistry (truthy (configGet env FunctionPath)) seen rs =
       (Returned True,
        map (\<lambda>e. (fst e, if recordClass (fst e) then Some (snd e) else None))
          (recordEntries env rs))"
proof (induction rs arbitrary: seen)
  case Nil
  show ?case by simp
next
  case (Cons r rs)
  from Cons.prems have "loopPasses env (config_id r # seen) rs" by simp
  from Cons.IH [OF this] Cons.prems show ?case
    by (auto simp: passable_def supportedType_def recordClass_def classOfType_def)
qed

text \<open>
  Claim C9, as the class has it. The result of \<open>load\<close> and the types of the components
  it appends, in order, are a function of the persisted descriptor
  (\<open>descriptorRegistry\<close>); so are, when the descriptor holds component records, the
  ids of the components built from records, which are the record ids. Two runs on an
  unchanged descriptor therefore end with the same result, and each appends to the
  registry it started from a sequence of components with the same ordered types and
  the same record ids, whatever the collaborators answer in either run and whether or
  not the run is the initial load. Nothing is said of the ids that constructors give
  the device and the \<open>IoTHubDevice\<close> (nor, for a project without records, the hub and
  the function app). Runs that started from the same registry (two newly constructed
  projects) end with registries of the same ordered types and record ids; a run on
  the project an earlier run has loaded starts from what that run left, for \<open>load\<close>
  appends. The ids of the records are plain ids (\<open>plainIds\<close>).
\<close>

theorem load_twice_same_descriptor:
  assumes "sameDescriptor env1 s1 env2 s2" and "plainIds (recordsOf env1)"
  shows "fst (fst (load env1 initLoad1 s1)) = fst (descriptorRegistry env1 s1) \<and>
         fst (fst (load env2 initLoad2 s2)) = fst (descriptorRegistry env1 s1) \<and>
         (\<exists>appended1 appended2.
            componentList (snd (load env1 initLoad1 s1)) = componentList s1 @ appended1 \<and>
            componentList (snd (load env2 initLoad2 s2)) = componentList s2 @ appended2 \<and>
            map cls appended1 = map fst (snd (descriptorRegistry env1 s1)) \<and>
            map cls appended2 = map fst (snd (descriptorRegistry env1 s1)) \<and>
            (if recordsOf env1 = [] then True
             else map typeAndRecordId appended1 = snd (descriptorRegistry env1 s1) \<and>
                  map typeAndRecordId appended2 = snd (descriptorRegistry env1 s1))) \<and>
         (componentList s1 = componentList s2 \<longrightarrow>
            map cls (componentList (snd (load env1 initLoad1 s1))) =
              map cls (componentList (snd (load env2 initLoad2 s2))) \<and>
            (if recordsOf env1 = [] then True
             else map typeAndRecordId (componentList (snd (load env1 initLoad1 s1))) =
                  map typeAndRecordId (componentList (snd (load env2 initLoad2 s2)))))"
proof -
  from sameDescriptor_registry [OF assms(1)]
  have same: "descriptorRegistry env2 s2 = descriptorRegistry env1 s1"
    "recordsOf env2 = recordsOf env1"
    by simp_all
  from load_registry [of env1 initLoad1 s1]
  obtain appended1 where
    a1: "fst (fst (load env1 initLoad1 s1)) = fst (descriptorRegistry env1 s1)"
      "componentList (snd (load env1 initLoad1 s1)) = componentList s1 @ appended1"
      "map cls appended1 = map fst (snd (descriptorRegistry env1 s1))"
      "if recordsOf env1 = [] then True
       else map typeAndRecordId appended1 = snd (descriptorRegistry env1 s1)"
    by blast
  from load_registry [of env2 initLoad2 s2] same
  obtain appended2 where
    a2: "fst (fst (load env2 initLoad2 s2)) = fst (descriptorRegistry env1 s1)"
      "componentList (snd (load env2 initLoad2 s2)) = componentList s2 @ appended2"
      "map cls appended2 = map fst (snd (descriptorRegistry env1 s1))"
      "if recordsOf env1 = [] then True
       else map typeAndRecordId appended2 = snd (descriptorRegistry env1 s1)"
    by auto
  have ids: "if recordsOf env1 = [] then True
        else map typeAndRecordId appended1 = snd (descriptorRegistry env1 s1) \<and>
             map typeAndRecordId appended2 = snd (descriptorRegistry env1 s1)"
    using a1(4) a2(4) by (simp split: if_splits)
  have "map cls (componentList (snd (load env1 initLoad1 s1))) =
          map cls (componentList (snd (load env2 initLoad2 s2))) \<and>
        (if recordsOf env1 = [] then True
         else map typeAndRecordId (componentList (snd (load env1 initLoad1 s1))) =
              map typeAndRecordId (componentList (snd (load env2 initLoad2 s2))))"
    if "componentList s1 = componentList s2"
    using that a1(2,3) a2(2,3) ids by (simp split: if_splits)
  with ids a1(1-3) a2(1-3) show ?thesis by blast
qed

lemmas example_defs =
  recordsEnv_def legacyEnv_def exampleEnv_def openedProject_def projectFolder_def
  hubRecord_def cosmosRecord_def asaRecord_def functionsRecord_def
  exampleDevice_def exampleHub_def exampleCosmos_def exampleAsa_def exampleFunctions_def
  exampleHubDevice_def

lemmas load_defs =
  load_def load_components_def load_legacy_def createIfNotExists_def push_def
  deviceClass_def newComponent_def loaded_def checkAll_def Let_def

lemma reaches_example: "reachesComponents (recordsEnv rs) openedProject"
  by (simp add: reachesComponents_def example_defs)

text \<open>
  An instance of C3: the records of a hub, a document store and a streaming job that
  depends on both.
\<close>

theorem load_registry_follows_records_witness:
  "reachesComponents (recordsEnv [hubRecord, cosmosRecord, asaRecord]) openedProject \<and>
   getSortedComponents (recordsEnv [hubRecord, cosmosRecord, asaRecord])
     = Some [hubRecord, cosmosRecord, asaRecord] \<and>
   list_all (passable (recordsEnv [hubRecord, cosmosRecord, asaRecord]))
     [hubRecord, cosmosRecord, asaRecord] \<and>
   resolvable [] [hubRecord, cosmosRecord, asaRecord] \<and>
   plainIds [hubRecord, cosmosRecord, asaRecord] \<and>
   fst (fst (load (recordsEnv [hubRecord, cosmosRecord, asaRecord]) False openedProject))
     = Returned True \<and>
   componentList (snd (load (recordsEnv [hubRecord, cosmosRecord, asaRecord]) False openedProject))
     = [exampleDevice, exampleHub, exampleHubDevice, exampleCosmos, exampleAsa]"
proof -
  let ?env = "recordsEnv [hubRecord, cosmosRecord, asaRecord]"
  have h: "reachesComponents ?env openedProject"
    "getSortedComponents ?env = Some [hubRecord, cosmosRecord, asaRecord]"
    "[hubRecord, cosmosRecord, asaRecord] \<noteq> []"
    "list_all (passable ?env) [hubRecord, cosmosRecord, asaRecord]"
    "resolvable [] [hubRecord, cosmosRecord, asaRecord]"
    "plainIds [hubRecord, cosmosRecord, asaRecord]"
    by (simp_all add: reachesComponents_def passable_def supportedType_def plainIds_def
          plainId_def objectPrototypeKeys_def example_defs)
  have l: "componentList (snd (load ?env False openedProject))
     = [exampleDevice, exampleHub, exampleHubDevice, exampleCosmos, exampleAsa]"
    by (simp add: load_defs example_defs)
  from load_registry_follows_records [OF h, of False] h l show ?thesis by simp
qed

text \<open>
  C3 as stated fails: a single \<open>IoTHub\<close> record, with nothing to resolve, yields the
  device, the hub and a hub device; the registry does not have the size of the record
  list.
\<close>

theorem load_two_components_per_hub_counterexample:
  "resolvable [] [hubRecord] \<and>
   componentList (snd (load (recordsEnv [hubRecord]) False openedProject))
     = [exampleDevice, exampleHub, exampleHubDevice] \<and>
   length (componentList (snd (load (recordsEnv [hubRecord]) False openedProject)))
     \<noteq> length [hubRecord]"
  by (simp add: load_defs example_defs)

text \<open>
  An instance of C4: the streaming job stands behind an \<open>AzureFunctions\<close> record
  (whose own dependency on the hub is unresolved and not looked at) and before the hub
  and the document store it depends on.
\<close>

theorem load_unresolved_dependency_witness:
  "reachesComponents (recordsEnv ([functionsRecord] @ asaRecord # [hubRecord, cosmosRecord]))
     openedProject \<and>
   loopPasses (recordsEnv ([functionsRecord] @ asaRecord # [hubRecord, cosmosRecord])) []
     [functionsRecord] \<and>
   config_type asaRecord = ''StreamAnalyticsJob'' \<and>
   \<lparr>dependent_id = ''id-cosmos'', dependent_type = Other\<rparr> \<in> set (config_dependencies asaRecord) \<and>
   ''id-cosmos'' \<notin> set (map config_id [functionsRecord]) \<and>
   ''id-cosmos'' \<in> set (map config_id [hubRecord, cosmosRecord]) \<and>
   plainIds ([functionsRecord] @ [asaRecord]) \<and>
   fst (fst (load (recordsEnv ([functionsRecord] @ asaRecord # [hubRecord, cosmosRecord]))
               False openedProject))
     = Threw CannotFindComponent \<and>
   componentList (snd (load (recordsEnv ([functionsRecord] @ asaRecord # [hubRecord, cosmosRecord]))
               False openedProject))
     = [exampleDevice, Component AzureFunctions ''id-functions'' []]"
proof -
  let ?env = "recordsEnv ([functionsRecord] @ asaRecord # [hubRecord, cosmosRecord])"
  let ?d = "\<lparr>dependent_id = ''id-cosmos'', dependent_type = Other\<rparr>"
  have h: "reachesComponents ?env openedProject"
    "getSortedComponents ?env = Some ([functionsRecord] @ asaRecord # [hubRecord, cosmosRecord])"
    "loopPasses ?env [] [functionsRecord]"
    "config_type asaRecord = ''StreamAnalyticsJob'' \<or> config_type asaRecord = ''CosmosDB''"
    "?d \<in> set (config_dependencies asaRecord)"
    "dependent_id ?d \<notin> set (map config_id [functionsRecord])"
    "plainIds ([functionsRecord] @ [asaRecord])"
    by (simp_all add: reachesComponents_def passable_def supportedType_def plainIds_def
          plainId_def objectPrototypeKeys_def example_defs)
  have g: "''id-cosmos'' \<in> set (map config_id [hubRecord, cosmosRecord])"
    "config_type asaRecord = ''StreamAnalyticsJob''"
    "''id-cosmos'' \<notin> set (map config_id [functionsRecord])"
    by (simp_all add: example_defs)
  have r: "componentList (snd (load ?env False openedProject))
     = [exampleDevice, Component AzureFunctions ''id-functions'' []]"
    by (simp add: load_defs example_defs)
  from load_unresolved_dependency [OF h, of False] h(1,3,5,7) g r show ?thesis by blast
qed

text \<open>
  C4 as stated fails for a record whose dependencies the loop does not look up. An
  \<open>IoTHub\<close> record that lists a dependency no record has is loaded, and \<open>load\<close>
  returns true: no path of the class gives a hub dependencies.
\<close>

theorem load_dependency_not_looked_up_counterexample:
  "\<lparr>dependent_id = ''id-missing'', dependent_type = Other\<rparr>
     \<in> set (config_dependencies hubWithDependency) \<and>
   ''id-missing'' \<notin> set (map config_id [hubWithDependency]) \<and>
   fst (fst (load (recordsEnv [hubWithDependency]) False openedProject)) = Returned True \<and>
   componentList (snd (load (recordsEnv [hubWithDependency]) False openedProject))
     = [exampleDevice, exampleHub, exampleHubDevice]"
  by (simp add: load_defs example_defs hubWithDependency_def)

text \<open>
  The \<open>AzureFunctions\<close> case of the loop does not read the dependencies of its record
  either: the component it builds has none, where the branch for projects without
  records hands the same class the hub as \<open>Input\<close> (\<open>load_legacy_functions\<close>).
\<close>

lemma load_functions_record_without_dependencies:
  "\<lparr>dependent_id = ''id-hub'', dependent_type = Input\<rparr> \<in> set (config_dependencies functionsRecord) \<and>
   fst (fst (load (recordsEnv [functionsRecord, hubRecord]) False openedProject))
     = Returned True \<and>
   componentList (snd (load (recordsEnv [functionsRecord, hubRecord]) False openedProject))
     = [exampleDevice, Component AzureFunctions ''id-functions'' [], exampleHub, exampleHubDevice]"
  by (simp add: load_defs example_defs)

text \<open>
  An instance of C6 in which the hub fails its prerequisites: all four components are
  checked and the result is true.
\<close>

theorem load_legacy_project_witness:
  "reachesComponents legacyEnv openedProject \<and>
   getSortedComponents legacyEnv = None \<and>
   truthy (configGet legacyEnv FunctionPath) \<and>
   \<not> checkPrerequisites legacyEnv exampleHub \<and>
   load legacyEnv False openedProject =
     ((Returned True,
       [E_load exampleDevice,
        E_updateConfigSettings exampleHub, E_load exampleHub,
        E_updateConfigSettings exampleFunctions, E_load exampleFunctions,
        E_checkPrerequisites exampleDevice True, E_checkPrerequisites exampleHub False,
        E_checkPrerequisites exampleHubDevice True,
        E_checkPrerequisites exampleFunctions True]),
      openedProject\<lparr>componentList :=
        [exampleDevice, exampleHub, exampleHubDevice, exampleFunctions]\<rparr>)"
proof -
  have h: "reachesComponents legacyEnv openedProject"
    "getSortedComponents legacyEnv = None \<or> getSortedComponents legacyEnv = Some []"
    "truthy (configGet legacyEnv FunctionPath)"
    by (simp_all add: reachesComponents_def example_defs)
  have l: "load legacyEnv False openedProject =
     ((Returned True,
       [E_load exampleDevice,
        E_updateConfigSettings exampleHub, E_load exampleHub,
        E_updateConfigSettings exampleFunctions, E_load exampleFunctions,
        E_checkPrerequisites exampleDevice True, E_checkPrerequisites exampleHub False,
        E_checkPrerequisites exampleHubDevice True,
        E_checkPrerequisites exampleFunctions True]),
      openedProject\<lparr>componentList :=
        [exampleDevice, exampleHub, exampleHubDevice, exampleFunctions]\<rparr>)"
    by (simp add: load_defs example_defs)
  have g: "getSortedComponents legacyEnv = None" "\<not> checkPrerequisites legacyEnv exampleHub"
    by (simp_all add: example_defs)
  from load_legacy_project [OF h, of False] h g l show ?thesis by simp
qed

text \<open>
  An instance of C9: the second run is made on the project the first run has loaded,
  with other ids from the constructors and every prerequisite check failing. Both runs
  append components of the same types and record ids; the second registry holds them
  behind those of the first run, and its device and \<open>IoTHubDevice\<close> have other ids.
  Made on a second, newly opened project instead, the second run ends with a registry of
  the same types and record ids as the first.
\<close>

theorem load_twice_same_descriptor_witness:
  "sameDescriptor (recordsEnv [hubRecord, cosmosRecord, asaRecord]) openedProject
     (secondRunEnv [hubRecord, cosmosRecord, asaRecord])
     (snd (load (recordsEnv [hubRecord, cosmosRecord, asaRecord]) True openedProject)) \<and>
   plainIds (recordsOf (recordsEnv [hubRecord, cosmosRecord, asaRecord])) \<and>
   fst (fst (load (recordsEnv [hubRecord, cosmosRecord, asaRecord]) True openedProject))
     = Returned True \<and>
   fst (fst (load (secondRunEnv [hubRecord, cosmosRecord, asaRecord]) False
     (snd (load (recordsEnv [hubRecord, cosmosRecord, asaRecord]) True openedProject))))
     = Returned True \<and>
   (\<exists>appended1 appended2.
      componentList (snd (load (recordsEnv [hubRecord, cosmosRecord, asaRecord]) True openedProject))
        = componentList openedProject @ appended1 \<and>
      componentList (snd (load (secondRunEnv [hubRecord, cosmosRecord, asaRecord]) False
        (snd (load (recordsEnv [hubRecord, cosmosRecord, asaRecord]) True openedProject))))
        = componentList
            (snd (load (recordsEnv [hubRecord, cosmosRecord, asaRecord]) True openedProject))
          @ appended2 \<and>
      map typeAndRecordId appended1 =
        [(RaspberryPiDevice, None), (IoTHub, Some ''id-hub''), (IoTHubDevice, None),
         (CosmosDB, Some ''id-cosmos''), (StreamAnalyticsJob, Some ''id-asa'')] \<and>
      map typeAndRecordId appended2 =
        [(RaspberryPiDevice, None), (IoTHub, Some ''id-hub''), (IoTHubDevice, None),
         (CosmosDB, Some ''id-cosmos''), (StreamAnalyticsJob, Some ''id-asa'')]) \<and>
   map entry (componentList (snd (load (secondRunEnv [hubRecord, cosmosRecord, asaRecord]) False
     (snd (load (recordsEnv [hubRecord, cosmosRecord, asaRecord]) True openedProject)))))
     = [(RaspberryPiDevice, ''id-device''), (IoTHub, ''id-hub''),
        (IoTHubDevice, ''id-hub-device''), (CosmosDB, ''id-cosmos''),
        (StreamAnalyticsJob, ''id-asa''),
        (RaspberryPiDevice, ''second-id-device''), (IoTHub, ''id-hub''),
        (IoTHubDevice, ''second-id-hub-device''), (CosmosDB, ''id-cosmos''),
        (StreamAnalyticsJob, ''id-asa'')] \<and>
   sameDescriptor (recordsEnv [hubRecord, cosmosRecord, asaRecord]) openedProject
     (secondRunEnv [hubRecord, cosmosRecord, asaRecord]) openedProject \<and>
   map typeAndRecordId (componentList
      (snd (load (recordsEnv [hubRecord, cosmosRecord, asaRecord]) True openedProject))) =
     map typeAndRecordId (componentList
      (snd (load (secondRunEnv [hubRecord, cosmosRecord, asaRecord]) False openedProject))) \<and>
   map entry (componentList
      (snd (load (secondRunEnv [hubRecord, cosmosRecord, asaRecord]) False openedProject)))
     = [(RaspberryPiDevice, ''second-id-device''), (IoTHub, ''id-hub''),
        (IoTHubDevice, ''second-id-hub-device''), (CosmosDB, ''id-cosmos''),
        (StreamAnalyticsJob, ''id-asa'')]"
proof -
  let ?env1 = "recordsEnv [hubRecord, cosmosRecord, asaRecord]"
  let ?env2 = "secondRunEnv [hubRecord, cosmosRecord, asaRecord]"
  let ?s2 = "snd (load ?env1 True openedProject)"
  have h: "sameDescriptor ?env1 openedProject ?env2 ?s2" "plainIds (recordsOf ?env1)"
    by (simp_all add: sameDescriptor_def secondRunEnv_def recordsOf_def plainIds_def
          plainId_def objectPrototypeKeys_def load_defs example_defs)
  have reg: "descriptorRegistry ?env1 openedProject =
      (Returned True,
       [(RaspberryPiDevice, None), (IoTHub, Some ''id-hub''), (IoTHubDevice, None),
        (CosmosDB, Some ''id-cosmos''), (StreamAnalyticsJob, Some ''id-asa'')])"
    "recordsOf ?env1 \<noteq> []"
    by (simp_all add: descriptorRegistry_def deviceRegistry_def reachesComponents_def
          recordsOf_def deviceClass_def classOfType_def example_defs)
  have l: "map entry (componentList (snd (load ?env2 False ?s2)))
     = [(RaspberryPiDevice, ''id-device''), (IoTHub, ''id-hub''),
        (IoTHubDevice, ''id-hub-device''), (CosmosDB, ''id-cosmos''),
        (StreamAnalyticsJob, ''id-asa''),
        (RaspberryPiDevice, ''second-id-device''), (IoTHub, ''id-hub''),
        (IoTHubDevice, ''second-id-hub-device''), (CosmosDB, ''id-cosmos''),
        (StreamAnalyticsJob, ''id-asa'')]"
    by (simp add: secondRunEnv_def otherId_def entry_def load_defs example_defs)
  have h': "sameDescriptor ?env1 openedProject ?env2 openedProject"
    by (simp add: sameDescriptor_def secondRunEnv_def example_defs)
  have l': "map entry (componentList (snd (load ?env2 False openedProject)))
     = [(RaspberryPiDevice, ''second-id-device''), (IoTHub, ''id-hub''),
        (IoTHubDevice, ''second-id-hub-device''), (CosmosDB, ''id-cosmos''),
        (StreamAnalyticsJob, ''id-asa'')]"
    by (simp add: secondRunEnv_def otherId_def entry_def load_defs example_defs)
  from load_twice_same_descriptor [OF h, of True False]
    load_twice_same_descriptor [OF h' h(2), of True False] h h' reg l l'
  show ?thesis by auto
qed

text \<open>
  C9 as stated fails when the two runs are made on the same project: \<open>load\<close> appends
  to the registry it finds. The descriptor is unchanged by the first run, and the
  registry holds five components after the first run and ten after the second.
\<close>

theorem load_second_run_appends_counterexample:
  "sameDescriptor (recordsEnv [hubRecord, cosmosRecord, asaRecord]) openedProject
     (recordsEnv [hubRecord, cosmosRecord, asaRecord])
     (snd (load (recordsEnv [hubRecord, cosmosRecord, asaRecord]) False openedProject)) \<and>
   fileSystem (snd (load (recordsEnv [hubRecord, cosmosRecord, asaRecord]) False openedProject))
     = fileSystem openedProject \<and>
   map entry (componentList
     (snd (load (recordsEnv [hubRecord, cosmosRecord, asaRecord]) False openedProject)))
     = [(RaspberryPiDevice, ''id-device''), (IoTHub, ''id-hub''),
        (IoTHubDevice, ''id-hub-device''), (CosmosDB, ''id-cosmos''),
        (StreamAnalyticsJob, ''id-asa'')] \<and>
   map entry (componentList
     (snd (load (recordsEnv [hubRecord, cosmosRecord, asaRecord]) False
        (snd (load (recordsEnv [hubRecord, cosmosRecord, asaRecord]) False openedProject)))))
     = [(RaspberryPiDevice, ''id-device''), (IoTHub, ''id-hub''),
        (IoTHubDevice, ''id-hub-device''), (CosmosDB, ''id-cosmos''),
        (StreamAnalyticsJob, ''id-asa''),
        (RaspberryPiDevice, ''id-device''), (IoTHub, ''id-hub''),
        (IoTHubDevice, ''id-hub-device''), (CosmosDB, ''id-cosmos''),
        (StreamAnalyticsJob, ''id-asa'')]"
  by (simp add: sameDescriptor_def entry_def load_defs example_defs)

subsection \<open>create\<close>

lemma create_loop_false:
  "E_create c (Returned False) \<in> set (snd (create_loop env cs)) \<Longrightarrow>
     fst (create_loop env cs) = CreateReturnedFalse"
  by (induction cs) (auto split: outcome.splits prod.splits if_splits)

lemma create_loop_threw:
  "E_create c (Threw e) \<in> set (snd (create_loop env cs)) \<Longrightarrow>
     fst (create_loop env cs) = CreateThrew e \<and>
     last (snd (create_loop env cs)) = E_create c (Threw e)"
  by (induction cs) (auto split: outcome.splits prod.splits if_splits)

text \<open>The loop reaches the first component whose \<open>create()\<close> does not return
  true: the components before it are created, the ones behind it are not.\<close>

lemma create_loop_stops_at_false:
  "list_all (\<lambda>c. component_create env c = Returned True) pre \<Longrightarrow>
   component_create env c = Returned False \<Longrightarrow>
   create_loop env (pre @ c # post) =
     (CreateReturnedFalse,
      map (\<lambda>c. E_create c (Returned True)) pre @ [E_create c (Returned False)])"
  by (induction pre) auto

lemma create_loop_stops_at_throw:
  "list_all (\<lambda>c. component_create env c = Returned True) pre \<Longrightarrow>
   component_create env c = Threw e \<Longrightarrow>
   create_loop env (pre @ c # post) =
     (CreateThrew e,
      map (\<lambda>c. E_create c (Returned True)) pre @ [E_create c (Threw e)])"
  by (induction pre) auto

lemma create_persist_events:
  "E_create c r \<notin> set (snd (fst (create_persist env openInNewWindow workspace projectConfig s)))"
  by (simp add: create_persist_def Let_def)

lemma create_components_false:
  assumes "E_create c (Returned False)
             \<in> set (snd (fst (create_components env openInNewWindow workspace projectConfig s)))"
  shows "create_components env openInNewWindow workspace projectConfig s =
           ((Returned False,
             snd (create_loop env (componentList s))
               @ [E_showWarningMessage ''Project initialize canceled.'']),
            s\<lparr>fileSystem := removeSync (fileSystem s)\<rparr>)"
proof -
  obtain r evs where l: "create_loop env (componentList s) = (r, evs)"
    by (cases "create_loop env (componentList s)")
  show ?thesis
  proof (cases r)
    case AllCreated
    with l assms create_persist_events [of c "Returned False" env openInNewWindow workspace projectConfig s]
    have "E_create c (Returned False) \<in> set evs"
      by (simp add: create_components_def)
    with create_loop_false [of c env "componentList s"] l AllCreated show ?thesis by simp
  next
    case CreateReturnedFalse
    with l show ?thesis by (simp add: create_components_def)
  next
    case (CreateThrew e)
    with l assms have "E_create c (Returned False) \<in> set evs"
      by (simp add: create_components_def)
    with create_loop_false [of c env "componentList s"] l CreateThrew show ?thesis by simp
  qed
qed

lemma create_components_threw:
  assumes "E_create c (Threw e)
             \<in> set (snd (fst (create_components env openInNewWindow workspace projectConfig s)))"
  shows "create_components env openInNewWindow workspace projectConfig s =
           ((Threw e, snd (create_loop env (componentList s))), s) \<and>
         last (snd (create_loop env (componentList s))) = E_create c (Threw e)"
proof -
  obtain r evs where l: "create_loop env (componentList s) = (r, evs)"
    by (cases "create_loop env (componentList s)")
  have "E_create c (Threw e) \<in> set evs"
    using l assms create_persist_events [of c "Threw e" env openInNewWindow workspace projectConfig s]
    by (cases r) (auto simp: create_components_def)
  with create_loop_threw [of c e env "componentList s"] l
  show ?thesis by (simp add: create_components_def)
qed

lemma removeSync_const: "removeSync f = removeSync g"
  by (simp add: removeSync_def)

lemma cc_false:
  "E_create c (Returned False)
     \<in> set (snd (fst (create_components env openInNewWindow workspace projectConfig s))) \<Longrightarrow>
   fst (fst (create_components env openInNewWindow workspace projectConfig s)) = Returned False \<and>
   fileSystem (snd (create_components env openInNewWindow workspace projectConfig s))
     = removeSync (fileSystem s0)"
  using create_components_false [of c env openInNewWindow workspace projectConfig s]
    removeSync_const [of "fileSystem s" "fileSystem s0"] by simp

lemma cc_threw:
  "E_create c (Threw e)
     \<in> set (snd (fst (create_components env openInNewWindow workspace projectConfig s))) \<Longrightarrow>
   fst (fst (create_components env openInNewWindow workspace projectConfig s)) = Threw e \<and>
   last (snd (fst (create_components env openInNewWindow workspace projectConfig s)))
     = E_create c (Threw e) \<and>
   snd (create_components env openInNewWindow workspace projectConfig s) = s \<and>
   snd (fst (create_components env openInNewWindow workspace projectConfig s)) \<noteq> []"
  using create_components_threw [of c e env openInNewWindow workspace projectConfig s] by auto

lemma create_template_false:
  assumes "E_create c (Returned False)
     \<in> set (snd (fst (create_template env projectType openInNewWindow workspace projectConfig s)))"
  shows "fst (fst (create_template env projectType openInNewWindow workspace projectConfig s))
           = Returned False \<and>
         fileSystem (snd (create_template env projectType openInNewWindow workspace projectConfig s))
           = removeSync (fileSystem s0)"
  using assms
  by (cases projectType)
     (auto simp: create_template_def Let_def split: if_splits dest!: cc_false [where ?s0.0 = s0])

lemma last_append_mem: "x \<in> set ys \<Longrightarrow> last (xs @ ys) = last ys"
  by (cases ys) (simp_all add: last_append)

lemma create_template_threw:
  assumes "E_create c (Threw e)
     \<in> set (snd (fst (create_template env projectType openInNewWindow workspace projectConfig s)))"
  shows "fst (fst (create_template env projectType openInNewWindow workspace projectConfig s))
           = Threw e \<and>
         last (snd (fst (create_template env projectType openInNewWindow workspace projectConfig s)))
           = E_create c (Threw e) \<and>
         rootFolder (fileSystem (snd (create_template env projectType openInNewWindow workspace projectConfig s)))
           = rootFolder (fileSystem s) \<and>
         deviceDir (fileSystem (snd (create_template env projectType openInNewWindow workspace projectConfig s)))
           = deviceDir (fileSystem s) \<and>
         componentConfigStore (fileSystem (snd (create_template env projectType openInNewWindow workspace projectConfig s)))
           = componentConfigStore (fileSystem s) \<and>
         workspaceConfigFile (fileSystem (snd (create_template env projectType openInNewWindow workspace projectConfig s)))
           = workspaceConfigFile (fileSystem s) \<and>
         projectConfigFile (fileSystem (snd (create_template env projectType openInNewWindow workspace projectConfig s)))
           = projectConfigFile (fileSystem s) \<and>
         snd (fst (create_template env projectType openInNewWindow workspace projectConfig s)) \<noteq> []"
  using assms
  by (cases projectType)
     (auto simp: create_template_def Let_def push_def last_append_mem
        split: if_splits dest!: cc_threw)

lemma create_template_threw_files:
  assumes "E_create c (Threw e)
     \<in> set (snd (fst (create_template env projectType openInNewWindow workspace projectConfig s)))"
  shows "iotworkbenchprojectFile (fileSystem (snd (create_template env projectType openInNewWindow workspace projectConfig s)))
           = iotworkbenchprojectFile (fileSystem s) \<and>
         vscodeFolder (fileSystem (snd (create_template env projectType openInNewWindow workspace projectConfig s)))
           = vscodeFolder (fileSystem s) \<and>
         functionDir (fileSystem (snd (create_template env projectType openInNewWindow workspace projectConfig s)))
           = (functionDir (fileSystem s) \<or> projectType = Template_AzureFunctions) \<and>
         asaDir (fileSystem (snd (create_template env projectType openInNewWindow workspace projectConfig s)))
           = (asaDir (fileSystem s) \<or> projectType = Template_StreamAnalytics) \<and>
         asaQueryFile (fileSystem (snd (create_template env projectType openInNewWindow workspace projectConfig s)))
           = (if projectType = Template_StreamAnalytics
              then Some (''iothub-'' @ newId env IoTHub, ''cosmosdb-'' @ newId env CosmosDB)
              else asaQueryFile (fileSystem s)) \<and>
         componentList (snd (create_template env projectType openInNewWindow workspace projectConfig s))
           = componentList s @
             (case projectType of
                Template_Basic \<Rightarrow> []
              | Template_IotHub \<Rightarrow> [newComponent env IoTHub []]
              | Template_AzureFunctions \<Rightarrow>
                  [newComponent env IoTHub [],
                   newComponent env AzureFunctions [(newComponent env IoTHub [], Input)]]
              | Template_StreamAnalytics \<Rightarrow>
                  [newComponent env IoTHub [], newComponent env CosmosDB [],
                   newComponent env StreamAnalyticsJob
                     [(newComponent env IoTHub [], Input), (newComponent env CosmosDB [], Other)]])"
  using assms
  by (cases projectType)
     (auto simp: create_template_def Let_def push_def newComponent_def
        split: if_splits dest!: cc_threw)

lemma create_threw_files:
  assumes "E_create c (Threw e)
          \<in> set (snd (fst (create env projectType boardId openInNewWindow s)))"
  shows "iotworkbenchprojectFile (fileSystem (snd (create env projectType boardId openInNewWindow s)))
        = iotworkbenchprojectFile (fileSystem s) \<and>
      vscodeFolder (fileSystem (snd (create env projectType boardId openInNewWindow s)))
        = vscodeFolder (fileSystem s) \<and>
      functionDir (fileSystem (snd (create env projectType boardId openInNewWindow s)))
        = (functionDir (fileSystem s) \<or> projectType = Template_AzureFunctions) \<and>
      asaDir (fileSystem (snd (create env projectType boardId openInNewWindow s)))
        = (asaDir (fileSystem s) \<or> projectType = Template_StreamAnalytics) \<and>
      asaQueryFile (fileSystem (snd (create env projectType boardId openInNewWindow s)))
        = (if projectType = Template_StreamAnalytics
           then Some (''iothub-'' @ newId env IoTHub, ''cosmosdb-'' @ newId env CosmosDB)
           else asaQueryFile (fileSystem s))"
  using assms
  by (auto simp: create_def Let_def push_def createIfNotExists_def
        split: if_splits dest!: create_template_threw_files)

text \<open>
  Claim C2. When, during \<open>create\<close>, the \<open>create()\<close> of a component returns false,
  \<open>create\<close> returns false and the project root is deleted with everything below it:
  no workspace file, no project-config file and no component config store remain. When
  the \<open>create()\<close> of a component throws, the error propagates, the throwing call is
  the last thing \<open>create\<close> did, and nothing is cleaned up or deleted: the file system
  is the one \<open>create\<close> had built when it entered the loop. The root, the device
  folder and the component config store exist; the folder of the template
  (\<open>Functions\<close>, or \<open>StreamAnalytics\<close> with its query file) exists; the workspace
  file, the project-config file, the \<open>.vscode\<close> folder and the
  \<open>.iotworkbenchproject\<close> file are as they were before the call.
\<close>

theorem create_false_rolls_back_throw_propagates:
  "(\<forall>c. E_create c (Returned False)
          \<in> set (snd (fst (create env projectType boardId openInNewWindow s))) \<longrightarrow>
      fst (fst (create env projectType boardId openInNewWindow s)) = Returned False \<and>
      \<not> rootFolder (fileSystem (snd (create env projectType boardId openInNewWindow s))) \<and>
      workspaceConfigFile (fileSystem (snd (create env projectType boardId openInNewWindow s))) = None \<and>
      projectConfigFile (fileSystem (snd (create env projectType boardId openInNewWindow s))) = None \<and>
      \<not> componentConfigStore (fileSystem (snd (create env projectType boardId openInNewWindow s))) \<and>
      fileSystem (snd (create env projectType boardId openInNewWindow s))
        = removeSync (fileSystem s)) \<and>
   (\<forall>c e. E_create c (Threw e)
          \<in> set (snd (fst (create env projectType boardId openInNewWindow s))) \<longrightarrow>
      fst (fst (create env projectType boardId openInNewWindow s)) = Threw e \<and>
      last (snd (fst (create env projectType boardId openInNewWindow s))) = E_create c (Threw e) \<and>
      rootFolder (fileSystem (snd (create env projectType boardId openInNewWindow s))) \<and>
      deviceDir (fileSystem (snd (create env projectType boardId openInNewWindow s))) \<and>
      componentConfigStore (fileSystem (snd (create env projectType boardId openInNewWindow s))) \<and>
      workspaceConfigFile (fileSystem (snd (create env projectType boardId openInNewWindow s)))
        = workspaceConfigFile (fileSystem s) \<and>
      projectConfigFile (fileSystem (snd (create env projectType boardId openInNewWindow s)))
        = projectConfigFile (fileSystem s) \<and>
      iotworkbenchprojectFile (fileSystem (snd (create env projectType boardId openInNewWindow s)))
        = iotworkbenchprojectFile (fileSystem s) \<and>
      vscodeFolder (fileSystem (snd (create env projectType boardId openInNewWindow s)))
        = vscodeFolder (fileSystem s) \<and>
      functionDir (fileSystem (snd (create env projectType boardId openInNewWindow s)))
        = (functionDir (fileSystem s) \<or> projectType = Template_AzureFunctions) \<and>
      asaDir (fileSystem (snd (create env projectType boardId openInNewWindow s)))
        = (asaDir (fileSystem s) \<or> projectType = Template_StreamAnalytics) \<and>
      asaQueryFile (fileSystem (snd (create env projectType boardId openInNewWindow s)))
        = (if projectType = Template_StreamAnalytics
           then Some (''iothub-'' @ newId env IoTHub, ''cosmosdb-'' @ newId env CosmosDB)
           else asaQueryFile (fileSystem s)))"
proof (intro conjI allI impI)
  fix c
  assume a: "E_create c (Returned False)
          \<in> set (snd (fst (create env projectType boardId openInNewWindow s)))"
  then have "fst (fst (create env projectType boardId openInNewWindow s)) = Returned False \<and>
      fileSystem (snd (create env projectType boardId openInNewWindow s)) = removeSync (fileSystem s)"
    by (auto simp: create_def Let_def split: if_splits
          dest!: create_template_false [where ?s0.0 = s])
  then show "fst (fst (create env projectType boardId openInNewWindow s)) = Returned False"
    "\<not> rootFolder (fileSystem (snd (create env projectType boardId openInNewWindow s)))"
    "workspaceConfigFile (fileSystem (snd (create env projectType boardId openInNewWindow s))) = None"
    "projectConfigFile (fileSystem (snd (create env projectType boardId openInNewWindow s))) = None"
    "\<not> componentConfigStore (fileSystem (snd (create env projectType boardId openInNewWindow s)))"
    "fileSystem (snd (create env projectType boardId openInNewWindow s)) = removeSync (fileSystem s)"
    by (simp_all add: removeSync_def)
next
  fix c e
  assume a: "E_create c (Threw e)
          \<in> set (snd (fst (create env projectType boardId openInNewWindow s)))"
  then have "fst (fst (create env projectType boardId openInNewWindow s)) = Threw e \<and>
      last (snd (fst (create env projectType boardId openInNewWindow s))) = E_create c (Threw e) \<and>
      rootFolder (fileSystem (snd (create env projectType boardId openInNewWindow s))) \<and>
      deviceDir (fileSystem (snd (create env projectType boardId openInNewWindow s))) \<and>
      componentConfigStore (fileSystem (snd (create env projectType boardId openInNewWindow s))) \<and>
      workspaceConfigFile (fileSystem (snd (create env projectType boardId openInNewWindow s)))
        = workspaceConfigFile (fileSystem s) \<and>
      projectConfigFile (fileSystem (snd (create env projectType boardId openInNewWindow s)))
        = projectConfigFile (fileSystem s)"
    by (auto simp: create_def Let_def push_def createIfNotExists_def last_append_mem
          split: if_splits dest!: create_template_threw)
  then show "fst (fst (create env projectType boardId openInNewWindow s)) = Threw e"
    "last (snd (fst (create env projectType boardId openInNewWindow s))) = E_create c (Threw e)"
    "rootFolder (fileSystem (snd (create env projectType boardId openInNewWindow s)))"
    "deviceDir (fileSystem (snd (create env projectType boardId openInNewWindow s)))"
    "componentConfigStore (fileSystem (snd (create env projectType boardId openInNewWindow s)))"
    "workspaceConfigFile (fileSystem (snd (create env projectType boardId openInNewWindow s)))
        = workspaceConfigFile (fileSystem s)"
    "projectConfigFile (fileSystem (snd (create env projectType boardId openInNewWindow s)))
        = projectConfigFile (fileSystem s)"
    by simp_all
  from create_threw_files [OF a]
  show "iotworkbenchprojectFile (fileSystem (snd (create env projectType boardId openInNewWindow s)))
        = iotworkbenchprojectFile (fileSystem s)"
    "vscodeFolder (fileSystem (snd (create env projectType boardId openInNewWindow s)))
        = vscodeFolder (fileSystem s)"
    "functionDir (fileSystem (snd (create env projectType boardId openInNewWindow s)))
        = (functionDir (fileSystem s) \<or> projectType = Template_AzureFunctions)"
    "asaDir (fileSystem (snd (create env projectType boardId openInNewWindow s)))
        = (asaDir (fileSystem s) \<or> projectType = Template_StreamAnalytics)"
    "asaQueryFile (fileSystem (snd (create env projectType boardId openInNewWindow s)))
        = (if projectType = Template_StreamAnalytics
           then Some (''iothub-'' @ newId env IoTHub, ''cosmosdb-'' @ newId env CosmosDB)
           else asaQueryFile (fileSystem s))"
    by simp_all
qed

lemmas create_defs =
  create_def create_template_def create_components_def create_persist_def
  createIfNotExists_def push_def newComponent_def removeSync_def Let_def

lemmas create_example_defs =
  exampleEnv_def emptyProject_def emptyFolder_def
  exampleDevice_def exampleHub_def exampleCosmos_def exampleAsa_def

lemma create_components_registry:
  "componentList (snd (create_components env openInNewWindow workspace projectConfig s))
     = componentList s"
  by (simp add: create_components_def create_persist_def Let_def
        split: prod.splits CreateLoop.splits)

text \<open>The registry \<open>create\<close> builds for the stream-analytics template, for every
  environment in which the four prerequisite checks pass: the components are appended
  to the registry as it was, the device twice.\<close>

lemma create_stream_analytics_pushes:
  assumes "rootFolder (fileSystem s)" and "boardId = boardIdOf env RaspberryPiDevice"
    and "checkPrerequisites env (newComponent env RaspberryPiDevice [])"
    and "checkPrerequisites env (newComponent env IoTHub [])"
    and "checkPrerequisites env (newComponent env CosmosDB [])"
    and "checkPrerequisites env (newComponent env StreamAnalyticsJob
           [(newComponent env IoTHub [], Input), (newComponent env CosmosDB [], Other)])"
  shows "componentList (snd (create env Template_StreamAnalytics boardId openInNewWindow s)) =
           componentList s @
           [newComponent env RaspberryPiDevice [], newComponent env RaspberryPiDevice [],
            newComponent env IoTHub [], newComponent env CosmosDB [],
            newComponent env StreamAnalyticsJob
              [(newComponent env IoTHub [], Input), (newComponent env CosmosDB [], Other)]]"
  using assms
  by (simp add: create_def create_template_def Let_def create_components_registry push_def
        createIfNotExists_def)

text \<open>
  Claim C1 at the example project: \<open>create\<close> with the stream-analytics template, the
  Raspberry Pi board and every prerequisite check passing. The workspace file lists the
  folders \<open>Device\<close> and \<open>StreamAnalytics\<close>, and the project-config file holds the board
  id and \<open>asaPath = StreamAnalytics\<close>, as the claim says; the registry, however, holds
  the device twice, in front of the hub, the document store and the streaming job.
\<close>

theorem create_stream_analytics_device_twice:
  "fst (fst (create exampleEnv Template_StreamAnalytics ''raspberrypi'' False emptyProject))
     = Returned True \<and>
   componentList (snd (create exampleEnv Template_StreamAnalytics ''raspberrypi'' False emptyProject))
     = [exampleDevice, exampleDevice, exampleHub, exampleCosmos, exampleAsa] \<and>
   componentList (snd (create exampleEnv Template_StreamAnalytics ''raspberrypi'' False emptyProject))
     \<noteq> [exampleDevice, exampleHub, exampleCosmos, exampleAsa] \<and>
   map_option folders
     (workspaceConfigFile (fileSystem
        (snd (create exampleEnv Template_StreamAnalytics ''raspberrypi'' False emptyProject))))
     = Some [''Device'', ''StreamAnalytics''] \<and>
   map_option (\<lambda>projectConfig. (projectConfig BoardId, projectConfig AsaPath))
     (projectConfigFile (fileSystem
        (snd (create exampleEnv Template_StreamAnalytics ''raspberrypi'' False emptyProject))))
     = Some (Some (StringValue ''raspberrypi''), Some (StringValue ''StreamAnalytics''))"
  by (simp add: create_defs create_example_defs)

text \<open>
  Instances of C2 for the stream-analytics template in an empty root folder: the
  document store is the fourth of five components created; once its \<open>create()\<close>
  returns false, once it throws.
\<close>

theorem create_false_rolls_back_throw_propagates_witness:
  "E_create exampleCosmos (Returned False)
     \<in> set (snd (fst (create (exampleEnv\<lparr>component_create := (\<lambda>c. Returned (cls c \<noteq> CosmosDB))\<rparr>)
                         Template_StreamAnalytics ''raspberrypi'' False emptyProject))) \<and>
   fst (fst (create (exampleEnv\<lparr>component_create := (\<lambda>c. Returned (cls c \<noteq> CosmosDB))\<rparr>)
               Template_StreamAnalytics ''raspberrypi'' False emptyProject)) = Returned False \<and>
   fileSystem (snd (create (exampleEnv\<lparr>component_create := (\<lambda>c. Returned (cls c \<noteq> CosmosDB))\<rparr>)
               Template_StreamAnalytics ''raspberrypi'' False emptyProject))
     = removeSync emptyFolder \<and>
   E_create exampleCosmos (Threw (External ''disk full''))
     \<in> set (snd (fst (create
          (exampleEnv\<lparr>component_create :=
             (\<lambda>c. if cls c = CosmosDB then Threw (External ''disk full'') else Returned True)\<rparr>)
          Template_StreamAnalytics ''raspberrypi'' False emptyProject))) \<and>
   fst (fst (create
          (exampleEnv\<lparr>component_create :=
             (\<lambda>c. if cls c = CosmosDB then Threw (External ''disk full'') else Returned True)\<rparr>)
          Template_StreamAnalytics ''raspberrypi'' False emptyProject))
     = Threw (External ''disk full'') \<and>
   rootFolder (fileSystem (snd (create
          (exampleEnv\<lparr>component_create :=
             (\<lambda>c. if cls c = CosmosDB then Threw (External ''disk full'') else Returned True)\<rparr>)
          Template_StreamAnalytics ''raspberrypi'' False emptyProject))) \<and>
   fileSystem (snd (create
          (exampleEnv\<lparr>component_create :=
             (\<lambda>c. if cls c = CosmosDB then Threw (External ''disk full'') else Returned True)\<rparr>)
          Template_StreamAnalytics ''raspberrypi'' False emptyProject))
     = emptyFolder\<lparr>componentConfigStore := True, deviceDir := True, asaDir := True,
         asaQueryFile := Some (''iothub-id-hub'', ''cosmosdb-id-cosmos'')\<rparr>"
proof -
  let ?envF = "exampleEnv\<lparr>component_create := (\<lambda>c. Returned (cls c \<noteq> CosmosDB))\<rparr>"
  let ?envT = "exampleEnv\<lparr>component_create :=
             (\<lambda>c. if cls c = CosmosDB then Threw (External ''disk full'') else Returned True)\<rparr>"
  have f: "E_create exampleCosmos (Returned False)
     \<in> set (snd (fst (create ?envF Template_StreamAnalytics ''raspberrypi'' False emptyProject)))"
    by (simp add: create_defs create_example_defs)
  have t: "E_create exampleCosmos (Threw (External ''disk full''))
     \<in> set (snd (fst (create ?envT Template_StreamAnalytics ''raspberrypi'' False emptyProject)))"
    by (simp add: create_defs create_example_defs)
  have e: "fileSystem emptyProject = emptyFolder" by (simp add: emptyProject_def)
  have w: "fileSystem (snd (create ?envT Template_StreamAnalytics ''raspberrypi'' False emptyProject))
     = emptyFolder\<lparr>componentConfigStore := True, deviceDir := True, asaDir := True,
         asaQueryFile := Some (''iothub-id-hub'', ''cosmosdb-id-cosmos'')\<rparr>"
    by (simp add: create_defs create_example_defs)
  from create_false_rolls_back_throw_propagates
         [of ?envF Template_StreamAnalytics "''raspberrypi''" False emptyProject]
       create_false_rolls_back_throw_propagates
         [of ?envT Template_StreamAnalytics "''raspberrypi''" False emptyProject]
       f t e w
  show ?thesis by auto
qed

end
